theory Spec2Isabelle
  imports Main "HOL-Library.Word" "HOL-Library.Sublist"
begin

section \<open>The Dex renderer of pkg/render/dex.go\<close>

text \<open>
  A shallow embedding of the Go file \<^verbatim>\<open>pkg/render/dex.go\<close>. Every function of the
  file is a HOL function of the same name. What the file imports from other packages
  (image lookup, the CSR helpers, the YAML encoder, package-level variables) is collected
  in the record \<open>externals\<close> and passed to the functions that use it, so every theorem
  holds for any behaviour of those collaborators; each of them is a function, so the same
  call gives the same answer. Go's panics are values of type \<open>panic\<close>: a function that
  can panic returns \<open>panic + 'a\<close>.
\<close>

subsection \<open>Errors, panics and pointers\<close>

text \<open>A non-nil Go \<^verbatim>\<open>error\<close> is identified with the text of its \<^verbatim>\<open>Error()\<close> method;
  a result of type \<open>go_error option\<close> is \<open>None\<close> for \<^verbatim>\<open>nil\<close>.\<close>

type_synonym go_error = string

datatype panic = NilPointerDereference | PanicError go_error

text \<open>The secrets live in a heap: cell \<open>a\<close> of the list. A \<^verbatim>\<open>*corev1.Secret\<close> is \<open>None\<close>
  for \<^verbatim>\<open>nil\<close> and \<open>Some a\<close> for the address of a cell. Allocation appends a cell.\<close>

record Secret =
  secret_Name :: string
  secret_Namespace :: string
  secret_Data :: "string \<rightharpoonup> string"

type_synonym heap = "Secret list"
type_synonym secret_ptr = "nat option"

text \<open>Reading through a pointer; \<open>None\<close> is the nil-pointer panic of the Go runtime
  (an address outside the heap, which Go cannot produce, is treated like nil).\<close>

fun deref :: "heap \<Rightarrow> secret_ptr \<Rightarrow> Secret option" where
  "deref h None = None"
| "deref h (Some a) = (if a < length h then Some (h ! a) else None)"

text \<open>Reading a slice of pointers: the secrets they name, or \<open>None\<close> when one of them
  cannot be read.\<close>

fun derefAll :: "heap \<Rightarrow> secret_ptr list \<Rightarrow> Secret list option" where
  "derefAll h [] = Some []"
| "derefAll h (p # ps) =
     (case deref h p of
        None \<Rightarrow> None
      | Some s \<Rightarrow> (case derefAll h ps of None \<Rightarrow> None | Some ss \<Rightarrow> Some (s # ss)))"

text \<open>A pointer is well formed in a heap when it is nil or names an allocated cell.\<close>

fun allocated :: "heap \<Rightarrow> secret_ptr \<Rightarrow> bool" where
  "allocated h None = True"
| "allocated h (Some a) = (a < length h)"

subsection \<open>Package strings and package fmt\<close>

fun HasPrefix :: "string \<Rightarrow> string \<Rightarrow> bool" where
  "HasPrefix s [] = True"
| "HasPrefix [] (p # ps) = False"
| "HasPrefix (c # s) (p # ps) = (c = p \<and> HasPrefix s ps)"

text \<open>\<^verbatim>\<open>strings.Contains(s, substr)\<close>: \<open>substr\<close> starts at some position of \<open>s\<close>.\<close>

fun Contains :: "string \<Rightarrow> string \<Rightarrow> bool" where
  "Contains [] substr = HasPrefix [] substr"
| "Contains (c # s) substr = (HasPrefix (c # s) substr \<or> Contains s substr)"

fun Join :: "string list \<Rightarrow> string \<Rightarrow> string" where
  "Join [] sep = []"
| "Join [e] sep = e"
| "Join (e # es) sep = e @ sep @ Join es sep"

text \<open>
  \<^verbatim>\<open>fmt.Sprintf(format)\<close> and \<^verbatim>\<open>fmt.Errorf(format)\<close> called with a format and no operand.
  Bytes other than \<^verbatim>\<open>%\<close> are copied. After a \<^verbatim>\<open>%\<close>: nothing left gives \<^verbatim>\<open>%!(NOVERB)\<close>;
  \<^verbatim>\<open>%%\<close> gives one \<^verbatim>\<open>%\<close>; a verb \<open>v\<close> that stands directly after the \<^verbatim>\<open>%\<close> finds no
  operand and gives \<^verbatim>\<open>%!v(MISSING)\<close>. A directive that starts with a flag, a width, a
  precision, an argument index or a byte outside ASCII is left to the parameter \<open>d\<close>:
  applied to the text after the \<^verbatim>\<open>%\<close>, it gives what fmt prints and how many bytes of
  that text the directive takes. The second argument counts bytes still to be skipped.
\<close>

definition plainVerb :: "char \<Rightarrow> bool" where
  "plainVerb v = (v \<notin> set ''#0+- [*.123456789'' \<and> (of_char v :: nat) < 128)"

fun doPrintf :: "(string \<Rightarrow> string \<times> nat) \<Rightarrow> nat \<Rightarrow> string \<Rightarrow> string" where
  "doPrintf d k [] = []"
| "doPrintf d (Suc k) (c # s) = doPrintf d k s"
| "doPrintf d 0 (c # s) =
     (if c \<noteq> CHR ''%'' then c # doPrintf d 0 s
      else (case s of
              [] \<Rightarrow> ''%!(NOVERB)''
            | v # rest \<Rightarrow>
                if v = CHR ''%'' then CHR ''%'' # doPrintf d 1 s
                else if plainVerb v then ''%!'' @ [v] @ ''(MISSING)'' @ doPrintf d 1 s
                else fst (d s) @ doPrintf d (snd (d s)) s))"

definition Errorf :: "(string \<Rightarrow> string \<times> nat) \<Rightarrow> string \<Rightarrow> go_error" where
  "Errorf d format = doPrintf d 0 format"

definition Sprintf_s :: "string \<Rightarrow> string \<Rightarrow> string" where
  \<comment> \<open>\<^verbatim>\<open>fmt.Sprintf("%s" + rest, host)\<close> for a text \<open>rest\<close> without directives\<close>
  "Sprintf_s host rest = host @ rest"

subsection \<open>The documents of the Kubernetes API that the renderer builds\<close>

text \<open>The types of \<^verbatim>\<open>k8s.io/api\<close> and \<^verbatim>\<open>operator/api/v1\<close>, with the fields this file sets
  or passes on. An unset string is empty, an unset map is empty, an unset slice is \<open>[]\<close>.\<close>

type_synonym int32 = "32 word"

record TypeMeta =
  tm_Kind :: string
  tm_APIVersion :: string

record ObjectMeta =
  om_Name :: string
  om_Namespace :: string
  om_Labels :: "string \<rightharpoonup> string"
  om_Annotations :: "string \<rightharpoonup> string"

record Toleration =
  tol_Key :: string
  tol_Operator :: string
  tol_Value :: string
  tol_Effect :: string

record EnvVar =
  env_Name :: string
  env_Value :: string

record Volume =
  vol_Name :: string
  vol_SecretName :: string

record VolumeMount =
  vm_Name :: string
  vm_MountPath :: string
  vm_ReadOnly :: bool

record SecurityContext =
  sc_RunAsNonRoot :: bool
  sc_AllowPrivilegeEscalation :: bool

record LocalObjectReference =
  lor_Name :: string

datatype IntOrString = IntVal int32 | StrVal string

record HTTPGetAction =
  http_Path :: string
  http_Port :: IntOrString
  http_Scheme :: string

record Probe =
  probe_HTTPGet :: "HTTPGetAction option"
  probe_InitialDelaySeconds :: int32
  probe_PeriodSeconds :: int32

record ContainerPort =
  cp_Name :: string
  cp_ContainerPort :: int32

record Container =
  ctr_Name :: string
  ctr_Image :: string
  ctr_Env :: "EnvVar list"
  ctr_LivenessProbe :: "Probe option"
  ctr_SecurityContext :: "SecurityContext option"
  ctr_Command :: "string list"
  ctr_Ports :: "ContainerPort list"
  ctr_VolumeMounts :: "VolumeMount list"

record PodSpec =
  NodeSelector :: "string \<rightharpoonup> string"
  ServiceAccountName :: string
  Tolerations :: "Toleration list"
  ImagePullSecrets :: "LocalObjectReference list"
  InitContainers :: "Container list"
  Containers :: "Container list"
  Volumes :: "Volume list"

record PodTemplateSpec =
  pts_ObjectMeta :: ObjectMeta
  pts_Spec :: PodSpec

record DeploymentSpec =
  ds_Selector :: "(string \<rightharpoonup> string) option"
  ds_Replicas :: "int32 option"
  ds_Strategy :: string
  ds_Template :: PodTemplateSpec

record Deployment =
  dep_TypeMeta :: TypeMeta
  dep_ObjectMeta :: ObjectMeta
  dep_Spec :: DeploymentSpec

record ServiceAccount =
  sa_TypeMeta :: TypeMeta
  sa_ObjectMeta :: ObjectMeta

record PolicyRule =
  APIGroups :: "string list"
  Resources :: "string list"
  Verbs :: "string list"

record ClusterRole =
  cr_TypeMeta :: TypeMeta
  cr_ObjectMeta :: ObjectMeta
  cr_Rules :: "PolicyRule list"

record RoleRef =
  rr_APIGroup :: string
  rr_Kind :: string
  rr_Name :: string

record Subject =
  subj_Kind :: string
  subj_Name :: string
  subj_Namespace :: string

record ClusterRoleBinding =
  crb_TypeMeta :: TypeMeta
  crb_ObjectMeta :: ObjectMeta
  crb_RoleRef :: RoleRef
  crb_Subjects :: "Subject list"

record ServicePort =
  sp_Name :: string
  sp_Port :: int32
  sp_TargetPort :: IntOrString
  sp_Protocol :: string

record ServiceSpec =
  ss_Selector :: "string \<rightharpoonup> string"
  ss_Ports :: "ServicePort list"

record Service =
  svc_TypeMeta :: TypeMeta
  svc_ObjectMeta :: ObjectMeta
  svc_Spec :: ServiceSpec

record ConfigMap =
  cm_TypeMeta :: TypeMeta
  cm_ObjectMeta :: ObjectMeta
  cm_Data :: "string \<rightharpoonup> string"

text \<open>A \<^verbatim>\<open>client.Object\<close> of the result: a pointer to a freshly built document, held by
  value, or a pointer to a secret of the heap.\<close>

datatype Object =
    ServiceAccountObj ServiceAccount
  | DeploymentObj Deployment
  | ServiceObj Service
  | ClusterRoleObj ClusterRole
  | ClusterRoleBindingObj ClusterRoleBinding
  | ConfigMapObj ConfigMap
  | SecretObj secret_ptr

text \<open>What an object serializes to in a heap: the document itself, or the secret its
  pointer names (\<open>None\<close> for a nil pointer).\<close>

datatype Content = Document Object | SecretContent "Secret option"

fun contentOf :: "heap \<Rightarrow> Object \<Rightarrow> Content" where
  "contentOf h (SecretObj p) = SecretContent (deref h p)"
| "contentOf h obj = Document obj"

text \<open>An \<^verbatim>\<open>interface{}\<close> value of the configuration document: strings, booleans, integers,
  slices and maps keyed by strings; \<open>GoOther\<close> is a value of any other Go type, which only
  the connector of the identity provider can bring in, named by its type.\<close>

datatype go_value =
    GoString string
  | GoBool bool
  | GoInt int
  | GoSlice "go_value list"
  | GoMap "string \<Rightarrow> go_value option"
  | GoOther string

subsection \<open>The inputs: installation, identity provider, externals\<close>

record CertificateManagement =
  CACert :: string
  SignerName :: string
  KeyAlgorithm :: string
  SignatureAlgorithm :: string

record InstallationSpec =
  Registry :: string
  ImagePath :: string
  CertificateManagement :: "CertificateManagement option"
  ControlPlaneNodeSelector :: "string \<rightharpoonup> string"
  ControlPlaneTolerations :: "Toleration list"

record ImageSet =
  imageset_Images :: "(string \<times> string) list"

record component =
  comp_Image :: string
  comp_Version :: string

text \<open>The interface \<^verbatim>\<open>DexConfig\<close>: the answers of the identity-provider collaborator.\<close>

record DexConfig =
  Connector :: "string \<Rightarrow> go_value option"
  RequiredSecrets :: "string \<Rightarrow> secret_ptr list"
  CreateCertSecret :: secret_ptr
  RequiredAnnotations :: "string \<rightharpoonup> string"
  RequiredEnv :: "string \<Rightarrow> EnvVar list"
  RequiredVolumeMounts :: "VolumeMount list"
  RequiredVolumes :: "Volume list"
  ManagerURI :: string

text \<open>What dex.go uses from other packages and files. A Go function with results
  \<^verbatim>\<open>(string, error)\<close> returns the pair of both. The last field is the part of package
  fmt that \<open>doPrintf\<close> leaves open.\<close>

record externals =
  ComponentDex :: component
  GetReference :: "component \<Rightarrow> string \<Rightarrow> string \<Rightarrow> ImageSet option \<Rightarrow> string \<times> go_error option"
  ResolveCSRInitImage :: "InstallationSpec \<Rightarrow> ImageSet option \<Rightarrow> string \<times> go_error option"
  CreateCSRInitContainer ::
    "CertificateManagement \<Rightarrow> string \<Rightarrow> string \<Rightarrow> string \<Rightarrow> string \<Rightarrow> string \<Rightarrow> string list \<Rightarrow> string
      \<Rightarrow> Container"
  csrClusterRoleBinding :: "string \<Rightarrow> string \<Rightarrow> ClusterRoleBinding"
  GetServiceDNSNames :: "string \<Rightarrow> string \<Rightarrow> string \<Rightarrow> string list"
  OperatorNamespace :: string
  TolerateMaster :: Toleration
  NewBaseContext :: SecurityContext
  replicas :: int32
  dexSecretEnv :: string
  yaml_Marshal :: "go_value \<Rightarrow> go_error + string"
  fmt_directive :: "string \<Rightarrow> string \<times> nat"

text \<open>The struct \<^verbatim>\<open>dexComponent\<close>. Its field \<^verbatim>\<open>image\<close> is \<open>dex_image\<close> here.\<close>

record dexComponent =
  dexConfig :: DexConfig
  pullSecrets :: "secret_ptr list"
  openshift :: bool
  installation :: "InstallationSpec option"
  connector :: "string \<Rightarrow> go_value option"
  dex_image :: string
  csrInitImage :: string
  clusterDomain :: string

subsection \<open>Helpers of package secret\<close>

text \<open>Modelled from the spec: \<^verbatim>\<open>secret.CopyToNamespace\<close> is not in the sources. The spec
  says that copying a secret to a namespace creates a new secret value with the same name
  and data in that namespace, and never aliases or mutates the original. Each pointer is
  read (a nil pointer panics, as every Go dereference does), and its copy is allocated in
  a new cell.\<close>

fun CopyToNamespace :: "string \<Rightarrow> secret_ptr list \<Rightarrow> heap \<Rightarrow> panic + (secret_ptr list \<times> heap)" where
  "CopyToNamespace ns [] h = Inr ([], h)"
| "CopyToNamespace ns (p # ps) h =
     (case deref h p of
        None \<Rightarrow> Inl NilPointerDereference
      | Some s \<Rightarrow>
          (case CopyToNamespace ns ps (h @ [s\<lparr>secret_Namespace := ns\<rparr>]) of
             Inl e \<Rightarrow> Inl e
           | Inr (qs, h') \<Rightarrow> Inr (Some (length h) # qs, h')))"

text \<open>Modelled from the spec: \<^verbatim>\<open>secret.ToRuntimeObjects\<close> is not in the sources. The spec
  says that each secret is converted to an object of the result.\<close>

definition ToRuntimeObjects :: "secret_ptr list \<Rightarrow> Object list" where
  "ToRuntimeObjects secrets = map SecretObj secrets"

text \<open>Modelled from the spec: \<^verbatim>\<open>secret.GetReferenceList\<close> is not in the sources. The spec
  says that the pod spec references all pull secrets by name.\<close>

fun GetReferenceList :: "heap \<Rightarrow> secret_ptr list \<Rightarrow> panic + LocalObjectReference list" where
  "GetReferenceList h [] = Inr []"
| "GetReferenceList h (p # ps) =
     (case deref h p of
        None \<Rightarrow> Inl NilPointerDereference
      | Some s \<Rightarrow>
          (case GetReferenceList h ps of
             Inl e \<Rightarrow> Inl e
           | Inr refs \<Rightarrow> Inr (\<lparr>lor_Name = secret_Name s\<rparr> # refs)))"

subsection \<open>The YAML encoder\<close>

text \<open>Modelled from the spec: \<^verbatim>\<open>yaml.Marshal\<close> is not in the sources. The spec says that
  the configuration document is always structurally serializable: serializing it gives a
  text and no error. Which text is left to the parameter \<open>encode\<close>. The functions of
  dex.go take the encoder from the record \<open>externals\<close>; this one is put there where a
  statement is about the encoder of the spec.\<close>

definition Marshal :: "(go_value \<Rightarrow> string) \<Rightarrow> go_value \<Rightarrow> go_error + string" where
  "Marshal encode data = Inr (encode data)"

subsection \<open>Constants\<close>

definition DexNamespace :: string where "DexNamespace = ''tigera-dex''"
definition DexObjectName :: string where "DexObjectName = ''tigera-dex''"
definition DexPort :: int where "DexPort = 5556"
definition DexCertSecretName :: string where "DexCertSecretName = ''tigera-dex-tls-crt''"
definition DexTLSSecretName :: string where "DexTLSSecretName = ''tigera-dex-tls''"
definition DexClientId :: string where "DexClientId = ''tigera-manager''"

text \<open>Constants of \<^verbatim>\<open>k8s.io/api\<close>.\<close>

definition TLSPrivateKeyKey :: string where "TLSPrivateKeyKey = ''tls.key''"
definition TLSCertKey :: string where "TLSCertKey = ''tls.crt''"
definition RecreateDeploymentStrategyType :: string where "RecreateDeploymentStrategyType = ''Recreate''"
definition ProtocolTCP :: string where "ProtocolTCP = ''TCP''"
definition URISchemeHTTPS :: string where "URISchemeHTTPS = ''HTTPS''"

definition FromInt :: "int \<Rightarrow> IntOrString" where
  "FromInt val = IntVal (word_of_int val)"

datatype OSType = OSTypeAny | OSTypeLinux | OSTypeWindows

subsection \<open>The component\<close>

definition Dex ::
  "secret_ptr list \<Rightarrow> bool \<Rightarrow> InstallationSpec option \<Rightarrow> DexConfig \<Rightarrow> string \<Rightarrow> dexComponent" where
  "Dex pullSecrets' openshift' installation' dexConfig' clusterDomain' =
     \<lparr>dexConfig = dexConfig',
      pullSecrets = pullSecrets',
      openshift = openshift',
      installation = installation',
      connector = Connector dexConfig',
      dex_image = [],
      csrInitImage = [],
      clusterDomain = clusterDomain'\<rparr>"

text \<open>\<^verbatim>\<open>ResolveImages\<close> assigns the fields \<^verbatim>\<open>image\<close> and \<^verbatim>\<open>csrInitImage\<close> of its receiver
  and returns an error or nil: the result is the new component and the error. Reading
  \<^verbatim>\<open>c.installation.Registry\<close> through a nil pointer panics.\<close>

definition ResolveImages ::
  "externals \<Rightarrow> dexComponent \<Rightarrow> ImageSet option \<Rightarrow> panic + (dexComponent \<times> go_error option)" where
  "ResolveImages ext c iset =
     (case installation c of
        None \<Rightarrow> Inl NilPointerDereference
      | Some inst \<Rightarrow>
          let reg = Registry inst;
              path = ImagePath inst;
              r1 = GetReference ext (ComponentDex ext) reg path iset;
              c1 = c\<lparr>dex_image := fst r1\<rparr>;
              errMsgs1 = (case snd r1 of None \<Rightarrow> [] | Some err \<Rightarrow> [] @ [err]);
              s2 = (case CertificateManagement inst of
                      None \<Rightarrow> (c1, errMsgs1)
                    | Some cm \<Rightarrow>
                        let r2 = ResolveCSRInitImage ext inst iset
                        in (c1\<lparr>csrInitImage := fst r2\<rparr>,
                            (case snd r2 of None \<Rightarrow> errMsgs1 | Some err \<Rightarrow> errMsgs1 @ [err])));
              errMsgs = snd s2
          in if length errMsgs \<noteq> 0
             then Inr (fst s2, Some (Errorf (fmt_directive ext) (Join errMsgs '','')))
             else Inr (fst s2, None))"

definition SupportedOSType :: "dexComponent \<Rightarrow> OSType" where
  "SupportedOSType c = OSTypeLinux"

definition Ready :: "dexComponent \<Rightarrow> bool" where
  "Ready c = True"

definition serviceAccount :: "dexComponent \<Rightarrow> ServiceAccount" where
  "serviceAccount c =
     \<lparr>sa_TypeMeta = \<lparr>tm_Kind = ''ServiceAccount'', tm_APIVersion = ''v1''\<rparr>,
      sa_ObjectMeta = \<lparr>om_Name = DexObjectName, om_Namespace = DexNamespace,
                       om_Labels = Map.empty, om_Annotations = Map.empty\<rparr>\<rparr>"

definition clusterRole :: "dexComponent \<Rightarrow> ClusterRole" where
  "clusterRole c =
     \<lparr>cr_TypeMeta = \<lparr>tm_Kind = ''ClusterRole'', tm_APIVersion = ''rbac.authorization.k8s.io/v1''\<rparr>,
      cr_ObjectMeta = \<lparr>om_Name = DexObjectName, om_Namespace = [],
                       om_Labels = Map.empty, om_Annotations = Map.empty\<rparr>,
      cr_Rules =
        [\<lparr>APIGroups = [''dex.coreos.com''], Resources = [''*''], Verbs = [''*'']\<rparr>,
         \<lparr>APIGroups = [''apiextensions.k8s.io''], Resources = [''customresourcedefinitions''],
          Verbs = [''create'']\<rparr>]\<rparr>"

definition clusterRoleBinding :: "dexComponent \<Rightarrow> ClusterRoleBinding" where
  "clusterRoleBinding c =
     \<lparr>crb_TypeMeta = \<lparr>tm_Kind = ''ClusterRoleBinding'',
                       tm_APIVersion = ''rbac.authorization.k8s.io/v1''\<rparr>,
      crb_ObjectMeta = \<lparr>om_Name = DexObjectName, om_Namespace = [],
                        om_Labels = Map.empty, om_Annotations = Map.empty\<rparr>,
      crb_RoleRef = \<lparr>rr_APIGroup = ''rbac.authorization.k8s.io'', rr_Kind = ''ClusterRole'',
                     rr_Name = DexObjectName\<rparr>,
      crb_Subjects =
        [\<lparr>subj_Kind = ''ServiceAccount'', subj_Name = DexObjectName,
          subj_Namespace = DexNamespace\<rparr>]\<rparr>"

text \<open>Perform a HTTP GET to determine if an endpoint is available.\<close>

definition probe :: "dexComponent \<Rightarrow> Probe" where
  "probe c =
     \<lparr>probe_HTTPGet = Some \<lparr>http_Path = ''/dex/.well-known/openid-configuration'',
                             http_Port = FromInt DexPort,
                             http_Scheme = URISchemeHTTPS\<rparr>,
      probe_InitialDelaySeconds = 90,
      probe_PeriodSeconds = 10\<rparr>"

text \<open>\<^verbatim>\<open>deployment\<close> reads \<^verbatim>\<open>c.installation\<close> (a nil pointer panics) and the names of the
  pull secrets in the heap.\<close>

definition deployment :: "externals \<Rightarrow> heap \<Rightarrow> dexComponent \<Rightarrow> panic + Deployment" where
  "deployment ext h c =
     (case installation c of
        None \<Rightarrow> Inl NilPointerDereference
      | Some inst \<Rightarrow>
          let initContainers =
                (case CertificateManagement inst of
                   None \<Rightarrow> []
                 | Some cm \<Rightarrow>
                     [] @ [CreateCSRInitContainer ext cm (csrInitImage c) ''tls'' DexObjectName
                             TLSPrivateKeyKey TLSCertKey
                             (GetServiceDNSNames ext DexObjectName DexNamespace (clusterDomain c))
                             DexNamespace])
          in (case GetReferenceList h (pullSecrets c) of
                Inl e \<Rightarrow> Inl e
              | Inr refs \<Rightarrow>
                  Inr \<lparr>dep_TypeMeta = \<lparr>tm_Kind = ''Deployment'', tm_APIVersion = ''apps/v1''\<rparr>,
                       dep_ObjectMeta =
                         \<lparr>om_Name = DexObjectName, om_Namespace = DexNamespace,
                          om_Labels = [''k8s-app'' \<mapsto> DexObjectName],
                          om_Annotations = Map.empty\<rparr>,
                       dep_Spec =
                         \<lparr>ds_Selector = Some [''k8s-app'' \<mapsto> DexObjectName],
                          ds_Replicas = Some (replicas ext),
                          ds_Strategy = RecreateDeploymentStrategyType,
                          ds_Template =
                            \<lparr>pts_ObjectMeta =
                               \<lparr>om_Name = DexObjectName, om_Namespace = DexNamespace,
                                om_Labels = [''k8s-app'' \<mapsto> DexObjectName],
                                om_Annotations = RequiredAnnotations (dexConfig c)\<rparr>,
                             pts_Spec =
                               \<lparr>NodeSelector = ControlPlaneNodeSelector inst,
                                ServiceAccountName = DexObjectName,
                                Tolerations = ControlPlaneTolerations inst @ [TolerateMaster ext],
                                ImagePullSecrets = refs,
                                InitContainers = initContainers,
                                Containers =
                                  [\<lparr>ctr_Name = DexObjectName,
                                    ctr_Image = dex_image c,
                                    ctr_Env = RequiredEnv (dexConfig c) [],
                                    ctr_LivenessProbe = Some (probe c),
                                    ctr_SecurityContext = Some (NewBaseContext ext),
                                    ctr_Command =
                                      [''/usr/local/bin/dex'', ''serve'',
                                       ''/etc/dex/baseCfg/config.yaml''],
                                    ctr_Ports =
                                      [\<lparr>cp_Name = ''https'',
                                        cp_ContainerPort = word_of_int DexPort\<rparr>],
                                    ctr_VolumeMounts = RequiredVolumeMounts (dexConfig c)\<rparr>],
                                Volumes = RequiredVolumes (dexConfig c)\<rparr>\<rparr>\<rparr>\<rparr>))"

definition service :: "dexComponent \<Rightarrow> Service" where
  "service c =
     \<lparr>svc_TypeMeta = \<lparr>tm_Kind = ''Service'', tm_APIVersion = ''v1''\<rparr>,
      svc_ObjectMeta = \<lparr>om_Name = DexObjectName, om_Namespace = DexNamespace,
                        om_Labels = Map.empty, om_Annotations = Map.empty\<rparr>,
      svc_Spec =
        \<lparr>ss_Selector = [''k8s-app'' \<mapsto> DexObjectName],
         ss_Ports =
           [\<lparr>sp_Name = DexObjectName,
             sp_Port = word_of_int DexPort,
             sp_TargetPort = IntVal (word_of_int DexPort),
             sp_Protocol = ProtocolTCP\<rparr>]\<rparr>\<rparr>"

text \<open>The three steps of \<^verbatim>\<open>configMap\<close>: the redirect URIs, the document \<^verbatim>\<open>data\<close>, and
  its serialization, where an error of \<^verbatim>\<open>yaml.Marshal\<close> panics.\<close>

definition redirectURIs :: "dexComponent \<Rightarrow> string list" where
  "redirectURIs c =
     (let redirectURIs0 =
            [''https://localhost:9443/login/oidc/callback'',
             ''https://127.0.0.1:9443/login/oidc/callback'',
             ''https://localhost:9443/tigera-kibana/api/security/oidc/callback'',
             ''https://127.0.0.1:9443/tigera-kibana/api/security/oidc/callback''];
          host = ManagerURI (dexConfig c)
      in if host \<noteq> [] \<and> \<not> Contains host ''localhost'' \<and> \<not> Contains host ''127.0.0.1''
         then (redirectURIs0 @ [Sprintf_s host ''/login/oidc/callback''])
                @ [Sprintf_s host ''/tigera-kibana/api/security/oidc/callback'']
         else redirectURIs0)"

definition GoStrings :: "string list \<Rightarrow> go_value" where
  "GoStrings xs = GoSlice (map GoString xs)"

definition configData :: "externals \<Rightarrow> dexComponent \<Rightarrow> go_value" where
  "configData ext c =
     GoMap
      [''issuer'' \<mapsto> GoString (Sprintf_s (ManagerURI (dexConfig c)) ''/dex''),
       ''storage'' \<mapsto>
          GoMap [''type'' \<mapsto> GoString ''kubernetes'',
                 ''config'' \<mapsto> GoMap [''inCluster'' \<mapsto> GoBool True]],
       ''web'' \<mapsto>
          GoMap [''https'' \<mapsto> GoString ''0.0.0.0:5556'',
                 ''tlsCert'' \<mapsto> GoString ''/etc/dex/tls/tls.crt'',
                 ''tlsKey'' \<mapsto> GoString ''/etc/dex/tls/tls.key'',
                 ''allowedOrigins'' \<mapsto> GoStrings [''*''],
                 ''discoveryAllowedOrigins'' \<mapsto> GoStrings [''*'']],
       ''connectors'' \<mapsto> GoSlice [GoMap (connector c)],
       ''oauth2'' \<mapsto>
          GoMap [''skipApprovalScreen'' \<mapsto> GoBool True,
                 ''responseTypes'' \<mapsto> GoStrings [''id_token'', ''code'', ''token'']],
       ''staticClients'' \<mapsto>
          GoSlice
           [GoMap [''id'' \<mapsto> GoString DexClientId,
                   ''redirectURIs'' \<mapsto> GoStrings (redirectURIs c),
                   ''name'' \<mapsto> GoString ''Calico Enterprise Manager'',
                   ''secretEnv'' \<mapsto> GoString (dexSecretEnv ext)]]]"

definition configMap :: "externals \<Rightarrow> dexComponent \<Rightarrow> panic + ConfigMap" where
  "configMap ext c =
     (case yaml_Marshal ext (configData ext c) of
        Inl err \<Rightarrow> Inl (PanicError err)
      | Inr bytes \<Rightarrow>
          Inr \<lparr>cm_TypeMeta = \<lparr>tm_Kind = ''ConfigMap'', tm_APIVersion = ''v1''\<rparr>,
               cm_ObjectMeta = \<lparr>om_Name = DexObjectName, om_Namespace = DexNamespace,
                                om_Labels = Map.empty, om_Annotations = Map.empty\<rparr>,
               cm_Data = [''config.yaml'' \<mapsto> bytes]\<rparr>)"

text \<open>\<^verbatim>\<open>Objects\<close> returns the objects to create and the objects to delete; the third
  component of the result is the heap after the call. The elements of the first slice are
  built in the order of the source, so the first panic is the one the caller sees.\<close>

definition Objects ::
  "externals \<Rightarrow> heap \<Rightarrow> dexComponent \<Rightarrow> panic + (Object list \<times> Object list \<times> heap)" where
  "Objects ext h c =
     (case deployment ext h c of
        Inl e \<Rightarrow> Inl e
      | Inr dep \<Rightarrow>
     (case configMap ext c of
        Inl e \<Rightarrow> Inl e
      | Inr cm \<Rightarrow>
          let objs0 = [ServiceAccountObj (serviceAccount c),
                       DeploymentObj dep,
                       ServiceObj (service c),
                       ClusterRoleObj (clusterRole c),
                       ClusterRoleBindingObj (clusterRoleBinding c),
                       ConfigMapObj cm];
              objs1 = objs0 @ ToRuntimeObjects (RequiredSecrets (dexConfig c) (OperatorNamespace ext));
              objs2 = objs1 @ [SecretObj (CreateCertSecret (dexConfig c))];
              objs3 = objs2 @ ToRuntimeObjects (RequiredSecrets (dexConfig c) DexNamespace)
          in (case CopyToNamespace DexNamespace (pullSecrets c) h of
                Inl e \<Rightarrow> Inl e
              | Inr (copies, h') \<Rightarrow>
                  let objs4 = objs3 @ ToRuntimeObjects copies
                  in (case installation c of
                        None \<Rightarrow> Inl NilPointerDereference
                      | Some inst \<Rightarrow>
                          (case CertificateManagement inst of
                             None \<Rightarrow> Inr (objs4, [], h')
                           | Some cm' \<Rightarrow>
                               Inr (objs4 @ [ClusterRoleBindingObj
                                              (csrClusterRoleBinding ext DexObjectName DexNamespace)],
                                    [], h'))))))"

subsection \<open>Observations on a result\<close>

text \<open>The kind of an object.\<close>

fun kindOf :: "Object \<Rightarrow> string" where
  "kindOf (ServiceAccountObj x) = tm_Kind (sa_TypeMeta x)"
| "kindOf (DeploymentObj x) = tm_Kind (dep_TypeMeta x)"
| "kindOf (ServiceObj x) = tm_Kind (svc_TypeMeta x)"
| "kindOf (ClusterRoleObj x) = tm_Kind (cr_TypeMeta x)"
| "kindOf (ClusterRoleBindingObj x) = tm_Kind (crb_TypeMeta x)"
| "kindOf (ConfigMapObj x) = tm_Kind (cm_TypeMeta x)"
| "kindOf (SecretObj p) = ''Secret''"

text \<open>A deployment with the init containers of its pod template replaced.\<close>

definition withInitContainers :: "Container list \<Rightarrow> Deployment \<Rightarrow> Deployment" where
  "withInitContainers ics dep =
     dep\<lparr>dep_Spec := (dep_Spec dep)
       \<lparr>ds_Template := (ds_Template (dep_Spec dep))
         \<lparr>pts_Spec := (pts_Spec (ds_Template (dep_Spec dep)))\<lparr>InitContainers := ics\<rparr>\<rparr>\<rparr>\<rparr>"

text \<open>Of a call of \<^verbatim>\<open>Objects\<close> that returned: the objects to create and the heap after the
  call. Of a call of \<^verbatim>\<open>ResolveImages\<close> that returned: its error.\<close>

fun created :: "panic + (Object list \<times> Object list \<times> heap) \<Rightarrow> Object list option" where
  "created (Inl e) = None"
| "created (Inr (objs, dels, h)) = Some objs"

fun heapAfter :: "panic + (Object list \<times> Object list \<times> heap) \<Rightarrow> heap option" where
  "heapAfter (Inl e) = None"
| "heapAfter (Inr (objs, dels, h)) = Some h"

fun returnedError :: "panic + (dexComponent \<times> go_error option) \<Rightarrow> go_error option" where
  "returnedError (Inl e) = None"
| "returnedError (Inr (c, err)) = err"

subsection \<open>Example inputs\<close>

text \<open>Concrete collaborators and inputs, at which the theorems below are instantiated: an
  identity provider that asks for nothing and whose certificate secret is cell 0 of the
  heap, an installation with or without certificate management, and externals whose two
  image lookups answer as given.\<close>

definition stubDexConfig :: "string \<Rightarrow> DexConfig" where
  "stubDexConfig uri =
     \<lparr>Connector = Map.empty,
      RequiredSecrets = (\<lambda>ns. []),
      CreateCertSecret = Some 0,
      RequiredAnnotations = Map.empty,
      RequiredEnv = (\<lambda>prefix. []),
      RequiredVolumeMounts = [],
      RequiredVolumes = [],
      ManagerURI = uri\<rparr>"

definition exampleCertSecret :: Secret where
  "exampleCertSecret =
     \<lparr>secret_Name = ''tigera-dex-tls-crt'', secret_Namespace = ''tigera-dex'',
      secret_Data = [''tls.crt'' \<mapsto> ''CERT'']\<rparr>"

definition examplePullSecret :: "string \<Rightarrow> Secret" where
  "examplePullSecret ns =
     \<lparr>secret_Name = ''tigera-pull-secret'', secret_Namespace = ns,
      secret_Data = [''.dockerconfigjson'' \<mapsto> ''{}'']\<rparr>"

definition exampleCertificateManagement :: CertificateManagement where
  "exampleCertificateManagement =
     \<lparr>CACert = ''CA'', SignerName = ''example.com/signer'',
      KeyAlgorithm = ''RSAWithSize2048'', SignatureAlgorithm = ''SHA256WithRSA''\<rparr>"

definition exampleInstallation :: "CertificateManagement option \<Rightarrow> InstallationSpec" where
  "exampleInstallation cm =
     \<lparr>Registry = ''quay.io/'', ImagePath = ''tigera'', CertificateManagement = cm,
      ControlPlaneNodeSelector = Map.empty, ControlPlaneTolerations = []\<rparr>"

definition exampleExternals ::
  "string \<times> go_error option \<Rightarrow> string \<times> go_error option \<Rightarrow> externals" where
  "exampleExternals lookupDex lookupCSR =
     \<lparr>ComponentDex = \<lparr>comp_Image = ''tigera/dex'', comp_Version = ''v3.7.0''\<rparr>,
      GetReference = (\<lambda>comp reg path iset. lookupDex),
      ResolveCSRInitImage = (\<lambda>inst iset. lookupCSR),
      CreateCSRInitContainer =
        (\<lambda>cm img vol name key cert dns ns.
           \<lparr>ctr_Name = ''key-cert-provisioner'', ctr_Image = img, ctr_Env = [],
            ctr_LivenessProbe = None, ctr_SecurityContext = None, ctr_Command = [],
            ctr_Ports = [],
            ctr_VolumeMounts = [\<lparr>vm_Name = vol, vm_MountPath = ''/certs-share'',
                                 vm_ReadOnly = False\<rparr>]\<rparr>),
      csrClusterRoleBinding =
        (\<lambda>name ns.
           \<lparr>crb_TypeMeta = \<lparr>tm_Kind = ''ClusterRoleBinding'',
                             tm_APIVersion = ''rbac.authorization.k8s.io/v1''\<rparr>,
            crb_ObjectMeta = \<lparr>om_Name = name @ '':csr-creator'', om_Namespace = [],
                              om_Labels = Map.empty, om_Annotations = Map.empty\<rparr>,
            crb_RoleRef = \<lparr>rr_APIGroup = ''rbac.authorization.k8s.io'',
                           rr_Kind = ''ClusterRole'', rr_Name = ''tigera-csr-creator''\<rparr>,
            crb_Subjects = [\<lparr>subj_Kind = ''ServiceAccount'', subj_Name = name,
                             subj_Namespace = ns\<rparr>]\<rparr>),
      GetServiceDNSNames =
        (\<lambda>svc ns dom. [svc, svc @ ''.'' @ ns, svc @ ''.'' @ ns @ ''.svc.'' @ dom]),
      OperatorNamespace = ''tigera-operator'',
      TolerateMaster = \<lparr>tol_Key = ''node-role.kubernetes.io/master'', tol_Operator = [],
                         tol_Value = [], tol_Effect = ''NoSchedule''\<rparr>,
      NewBaseContext = \<lparr>sc_RunAsNonRoot = True, sc_AllowPrivilegeEscalation = False\<rparr>,
      replicas = 1,
      dexSecretEnv = ''DEX_SECRET'',
      yaml_Marshal = (\<lambda>data. Inr ''issuer: /dex''),
      fmt_directive = (\<lambda>s. ([], 1))\<rparr>"

definition okExternals :: externals where
  "okExternals = exampleExternals (''quay.io/tigera/dex:v3.7.0'', None)
                                  (''quay.io/tigera/key-cert-provisioner:v1'', None)"

text \<open>Externals whose encoder prints the redirect URIs of the first static client of the
  document, separated by blanks, and externals whose two image lookups fail.\<close>

fun textOf :: "go_value \<Rightarrow> string" where
  "textOf (GoString s) = s"
| "textOf v = []"

definition uriLine :: "go_value \<Rightarrow> string" where
  "uriLine data =
     (case data of
        GoMap doc \<Rightarrow>
          (case doc ''staticClients'' of
             Some (GoSlice (GoMap client # clients)) \<Rightarrow>
               (case client ''redirectURIs'' of
                  Some (GoSlice uris) \<Rightarrow> Join (map textOf uris) '' ''
                | _ \<Rightarrow> [])
           | _ \<Rightarrow> [])
      | _ \<Rightarrow> [])"

definition listingExternals :: externals where
  "listingExternals = okExternals\<lparr>yaml_Marshal := Marshal uriLine\<rparr>"

definition failingExternals :: externals where
  "failingExternals =
     exampleExternals ([], Some ''ImageSet did not contain image tigera/dex'')
                      ([], Some ''ImageSet did not contain image tigera/key-cert-provisioner'')"

definition minimalComponent :: dexComponent where
  "minimalComponent =
     Dex [] False (Some (exampleInstallation None)) (stubDexConfig []) ''cluster.local''"

definition managerComponent :: "string \<Rightarrow> dexComponent" where
  "managerComponent uri =
     Dex [] False (Some (exampleInstallation None)) (stubDexConfig uri) ''cluster.local''"

text \<open>A component with one pull secret, which is cell 1 of the heap and lives in the
  given namespace.\<close>

definition pullComponent :: "CertificateManagement option \<Rightarrow> dexComponent" where
  "pullComponent cm =
     Dex [Some 1] False (Some (exampleInstallation cm))
       (stubDexConfig ''https://mgr.example.com'') ''cluster.local''"

definition pullHeap :: "string \<Rightarrow> heap" where
  "pullHeap ns = [exampleCertSecret, examplePullSecret ns]"

lemmas example_defs = Dex_def okExternals_def exampleExternals_def exampleInstallation_def
  stubDexConfig_def exampleCertSecret_def examplePullSecret_def exampleCertificateManagement_def
  minimalComponent_def managerComponent_def pullComponent_def pullHeap_def
  listingExternals_def failingExternals_def

lemmas render_defs = Objects_def deployment_def configMap_def serviceAccount_def service_def
  clusterRole_def clusterRoleBinding_def ToRuntimeObjects_def

section \<open>Properties\<close>

subsection \<open>Strings\<close>

lemma HasPrefix_prefix: "HasPrefix s p \<longleftrightarrow> prefix p s"
  by (induction s p rule: HasPrefix.induct) auto

lemma Contains_sublist: "Contains s sub \<longleftrightarrow> sublist sub s"
  by (induction s) (auto simp: HasPrefix_prefix sublist_Cons_right)

lemma doPrintf_plain: "CHR ''%'' \<notin> set s \<Longrightarrow> doPrintf d 0 s = s"
  by (induction s) auto

lemma Contains_append_left: "Contains (e1 @ s) e1"
  by (simp add: Contains_sublist)

lemma Contains_append_right: "Contains (s @ e2) e2"
  by (simp add: Contains_sublist)

lemma Contains_joined: "Contains (e1 @ sep @ e2) e1 \<and> Contains (e1 @ sep @ e2) e2"
  using Contains_append_left [of e1 "sep @ e2"] Contains_append_right [of "e1 @ sep" e2]
  by simp

lemma textOf_GoString: "map (textOf \<circ> GoString) xs = xs"
  by (induction xs) auto

subsection \<open>The heap\<close>

lemma deref_append: "deref h p = Some s \<Longrightarrow> deref (h @ xs) p = Some s"
  by (cases p) (auto simp: nth_append split: if_splits)

lemma deref_append_allocated: "allocated h p \<Longrightarrow> deref (h @ xs) p = deref h p"
  by (cases p) (auto simp: nth_append)

lemma derefAll_append: "derefAll h ps = Some ss \<Longrightarrow> derefAll (h @ xs) ps = Some ss"
  by (induction ps arbitrary: ss) (auto simp: deref_append split: option.splits)

lemma derefAll_length: "derefAll h ps = Some ss \<Longrightarrow> length ss = length ps"
  by (induction ps arbitrary: ss) (auto split: option.splits)

lemma derefAll_fresh:
  "derefAll (h @ cs) (map Some [length h ..< length h + length cs]) = Some cs"
proof (induction cs arbitrary: h)
  case Nil
  show ?case by simp
next
  case (Cons c cs)
  have "derefAll ((h @ [c]) @ cs)
          (map Some [length (h @ [c]) ..< length (h @ [c]) + length cs]) = Some cs"
    by (rule Cons.IH)
  then have rest:
    "derefAll (h @ c # cs) (map Some [Suc (length h) ..< Suc (length h + length cs)]) = Some cs"
    by simp
  have "[length h ..< length h + length (c # cs)]
        = length h # [Suc (length h) ..< Suc (length h + length cs)]"
    by (simp add: upt_rec)
  then show ?case using rest by simp
qed

lemma derefAll_allocated:
  "derefAll h ps = Some ss \<Longrightarrow> \<forall>p\<in>set ps. \<exists>a. p = Some a \<and> a < length h"
proof (induction ps arbitrary: ss)
  case Nil
  show ?case by simp
next
  case (Cons p ps)
  from Cons.prems obtain s ss' where s: "deref h p = Some s" and ss': "derefAll h ps = Some ss'"
    by (auto split: option.splits)
  from s have "\<exists>a. p = Some a \<and> a < length h"
    by (cases p) (auto split: if_splits)
  with Cons.IH [OF ss'] show ?case by simp
qed

lemma allocated_append: "allocated h p \<Longrightarrow> allocated (h @ xs) p"
  by (cases p) auto

lemma allocated_fresh:
  "\<forall>p\<in>set (map Some [length h ..< length h + length cs]). allocated (h @ cs) p"
  by auto

lemma contentOf_append:
  "allocated h p \<Longrightarrow> contentOf (h @ xs) (SecretObj p) = contentOf h (SecretObj p)"
  by (simp add: deref_append_allocated)

lemma contentOf_secrets_append:
  "\<forall>p\<in>set ps. allocated h p \<Longrightarrow>
   map (contentOf (h @ xs)) (map SecretObj ps) = map (contentOf h) (map SecretObj ps)"
  by (induction ps) (auto simp: deref_append_allocated)

lemma contentOf_fresh:
  "map (contentOf (h @ cs)) (map SecretObj (map Some [length h ..< length h + length cs]))
   = map (\<lambda>s. SecretContent (Some s)) cs"
  by (rule nth_equalityI) (auto simp: nth_append)

lemma GetReferenceList_closed:
  "GetReferenceList h ps =
     (case derefAll h ps of
        None \<Rightarrow> Inl NilPointerDereference
      | Some ss \<Rightarrow> Inr (map (\<lambda>s. \<lparr>lor_Name = secret_Name s\<rparr>) ss))"
  by (induction ps) (auto split: option.splits sum.splits)

lemma CopyToNamespace_ok:
  "derefAll h ps = Some ss \<Longrightarrow>
   CopyToNamespace ns ps h =
     Inr (map Some [length h ..< length h + length ps],
          h @ map (\<lambda>s. s\<lparr>secret_Namespace := ns\<rparr>) ss)"
proof (induction ps arbitrary: h ss)
  case Nil
  then show ?case by simp
next
  case (Cons p ps)
  from Cons.prems obtain s ss' where
    s: "deref h p = Some s" and ss': "derefAll h ps = Some ss'" and ss: "ss = s # ss'"
    by (auto split: option.splits)
  let ?h1 = "h @ [s\<lparr>secret_Namespace := ns\<rparr>]"
  have "derefAll ?h1 ps = Some ss'"
    using ss' by (rule derefAll_append)
  then have IH: "CopyToNamespace ns ps ?h1 =
     Inr (map Some [length ?h1 ..< length ?h1 + length ps],
          ?h1 @ map (\<lambda>s. s\<lparr>secret_Namespace := ns\<rparr>) ss')"
    by (rule Cons.IH)
  have idx: "[length h ..< length h + length (p # ps)]
             = length h # [Suc (length h) ..< Suc (length h + length ps)]"
    by (simp add: upt_rec)
  show ?case
    using s ss IH idx by simp
qed

subsection \<open>When Objects returns, and what\<close>

lemma deployment_Inr_iff:
  "(\<exists>dep. deployment ext h c = Inr dep) \<longleftrightarrow>
   (\<exists>inst ss. installation c = Some inst \<and> derefAll h (pullSecrets c) = Some ss)"
  by (auto simp: deployment_def GetReferenceList_closed Let_def split: option.splits)

lemma configMap_Inr_iff:
  "(\<exists>cmap. configMap ext c = Inr cmap) \<longleftrightarrow>
   (\<exists>bytes. yaml_Marshal ext (configData ext c) = Inr bytes)"
  by (auto simp: configMap_def split: sum.splits)

lemma Objects_result:
  assumes inst: "installation c = Some inst"
    and ss: "derefAll h (pullSecrets c) = Some ss"
    and dep: "deployment ext h c = Inr dep"
    and cmap: "configMap ext c = Inr cmap"
  shows "Objects ext h c =
     Inr ([ServiceAccountObj (serviceAccount c), DeploymentObj dep, ServiceObj (service c),
           ClusterRoleObj (clusterRole c), ClusterRoleBindingObj (clusterRoleBinding c),
           ConfigMapObj cmap]
          @ map SecretObj (RequiredSecrets (dexConfig c) (OperatorNamespace ext))
          @ [SecretObj (CreateCertSecret (dexConfig c))]
          @ map SecretObj (RequiredSecrets (dexConfig c) DexNamespace)
          @ map SecretObj (map Some [length h ..< length h + length (pullSecrets c)])
          @ (case CertificateManagement inst of
               None \<Rightarrow> []
             | Some cm \<Rightarrow>
                 [ClusterRoleBindingObj (csrClusterRoleBinding ext DexObjectName DexNamespace)]),
          [],
          h @ map (\<lambda>s. s\<lparr>secret_Namespace := DexNamespace\<rparr>) ss)"
  using inst dep cmap CopyToNamespace_ok [OF ss, of DexNamespace]
  by (simp add: Objects_def ToRuntimeObjects_def Let_def split: option.splits)

lemma Objects_Inr_D:
  assumes "Objects ext h c = Inr r"
  shows "\<exists>inst ss dep cmap. installation c = Some inst \<and> derefAll h (pullSecrets c) = Some ss
           \<and> deployment ext h c = Inr dep \<and> configMap ext c = Inr cmap"
proof -
  from assms obtain dep where dep: "deployment ext h c = Inr dep"
    by (auto simp: Objects_def split: sum.splits)
  from assms dep obtain cmap where cmap: "configMap ext c = Inr cmap"
    by (auto simp: Objects_def split: sum.splits)
  from dep deployment_Inr_iff [of ext h c] obtain inst ss where
    "installation c = Some inst" "derefAll h (pullSecrets c) = Some ss"
    by blast
  with dep cmap show ?thesis by blast
qed

lemma deployment_fields:
  assumes "deployment ext h c = Inr dep" and "installation c = Some inst"
  shows "map ctr_Image (Containers (pts_Spec (ds_Template (dep_Spec dep)))) = [dex_image c]"
    and "InitContainers (pts_Spec (ds_Template (dep_Spec dep))) =
           (case CertificateManagement inst of
              None \<Rightarrow> []
            | Some cm \<Rightarrow>
                [CreateCSRInitContainer ext cm (csrInitImage c) ''tls'' DexObjectName
                   TLSPrivateKeyKey TLSCertKey
                   (GetServiceDNSNames ext DexObjectName DexNamespace (clusterDomain c))
                   DexNamespace])"
    and "Tolerations (pts_Spec (ds_Template (dep_Spec dep))) =
           ControlPlaneTolerations inst @ [TolerateMaster ext]"
  using assms
  by (auto simp: deployment_def Let_def split: option.splits sum.splits)

lemma configMap_installation: "configMap ext (c\<lparr>installation := i\<rparr>) = configMap ext c"
  by (simp add: configMap_def configData_def redirectURIs_def)

lemma deployment_toggle:
  assumes "deployment ext h (c\<lparr>installation := Some (inst\<lparr>CertificateManagement := None\<rparr>)\<rparr>)
             = Inr dep"
  shows "InitContainers (pts_Spec (ds_Template (dep_Spec dep))) = []"
    and "deployment ext h (c\<lparr>installation := Some (inst\<lparr>CertificateManagement := Some cm\<rparr>)\<rparr>) =
           Inr (withInitContainers
                  [CreateCSRInitContainer ext cm (csrInitImage c) ''tls'' DexObjectName
                     TLSPrivateKeyKey TLSCertKey
                     (GetServiceDNSNames ext DexObjectName DexNamespace (clusterDomain c))
                     DexNamespace] dep)"
  using assms
  by (auto simp: deployment_def withInitContainers_def probe_def split: sum.splits)

lemma deployment_heap:
  assumes "derefAll h2 (pullSecrets c) = derefAll h1 (pullSecrets c)"
  shows "deployment ext h2 c = deployment ext h1 c"
proof -
  have "GetReferenceList h2 (pullSecrets c) = GetReferenceList h1 (pullSecrets c)"
    using assms by (simp add: GetReferenceList_closed)
  then show ?thesis
    unfolding deployment_def by (rule arg_cong)
qed

subsection \<open>ResolveImages: what holds of the aggregation\<close>

text \<open>With a nil installation \<^verbatim>\<open>ResolveImages\<close> panics; otherwise it returns. It returns an
  error exactly when a lookup it made failed; with certificate management enabled both
  images are assigned from their lookups, whatever the other lookup answered. When both
  lookups fail, the error is \<^verbatim>\<open>fmt.Errorf\<close> of the two messages joined by a comma, which
  is the joined text itself when no message contains a \<^verbatim>\<open>%\<close>.\<close>

lemma ResolveImages_nil:
  "installation c = None \<Longrightarrow> ResolveImages ext c iset = Inl NilPointerDereference"
  by (simp add: ResolveImages_def)

lemma ResolveImages_returns:
  "installation c = Some inst \<Longrightarrow> \<exists>c' err. ResolveImages ext c iset = Inr (c', err)"
  by (simp add: ResolveImages_def Let_def)

lemma ResolveImages_error_iff:
  assumes "installation c = Some inst" and "ResolveImages ext c iset = Inr (c', err)"
  shows "err \<noteq> None \<longleftrightarrow>
           snd (GetReference ext (ComponentDex ext) (Registry inst) (ImagePath inst) iset) \<noteq> None
           \<or> (CertificateManagement inst \<noteq> None
               \<and> snd (ResolveCSRInitImage ext inst iset) \<noteq> None)"
  using assms
  by (auto simp: ResolveImages_def Let_def split: option.splits if_splits)

lemma ResolveImages_no_short_circuit:
  assumes "installation c = Some inst" and "CertificateManagement inst = Some cm"
    and "ResolveImages ext c iset = Inr (c', err)"
  shows "dex_image c' =
           fst (GetReference ext (ComponentDex ext) (Registry inst) (ImagePath inst) iset)
         \<and> csrInitImage c' = fst (ResolveCSRInitImage ext inst iset)"
  using assms
  by (auto simp: ResolveImages_def Let_def split: option.splits if_splits)

lemma ResolveImages_both_fail:
  assumes "installation c = Some inst" and "CertificateManagement inst = Some cm"
    and "snd (GetReference ext (ComponentDex ext) (Registry inst) (ImagePath inst) iset) = Some e1"
    and "snd (ResolveCSRInitImage ext inst iset) = Some e2"
  shows "\<exists>c'. ResolveImages ext c iset =
                Inr (c', Some (Errorf (fmt_directive ext) (e1 @ '','' @ e2)))"
  using assms
  by (simp add: ResolveImages_def Let_def)

lemma ResolveImages_both_fail_plain:
  assumes "installation c = Some inst" and "CertificateManagement inst = Some cm"
    and "snd (GetReference ext (ComponentDex ext) (Registry inst) (ImagePath inst) iset) = Some e1"
    and "snd (ResolveCSRInitImage ext inst iset) = Some e2"
    and "CHR ''%'' \<notin> set e1" and "CHR ''%'' \<notin> set e2"
  shows "\<exists>c'. ResolveImages ext c iset = Inr (c', Some (e1 @ '','' @ e2))"
  using ResolveImages_both_fail [OF assms(1-4)] assms(5,6)
  by (simp add: Errorf_def doPrintf_plain)

text \<open>The condition on \<^verbatim>\<open>%\<close> is needed: \<^verbatim>\<open>fmt.Errorf\<close> reads a \<^verbatim>\<open>%\<close> of the joined text as
  the start of a directive, and a verb without operand prints as \<^verbatim>\<open>%!v(MISSING)\<close>.\<close>

lemma ResolveImages_percent_directive:
  "returnedError
     (ResolveImages
        (exampleExternals ([], Some ''image %s not in image set'')
                          ([], Some ''csr-init image missing''))
        (pullComponent (Some exampleCertificateManagement)) None)
   = Some ''image %!s(MISSING) not in image set,csr-init image missing''"
  by (simp add: ResolveImages_def example_defs Let_def Errorf_def plainVerb_def)

section \<open>The claims\<close>

subsection \<open>C1: the objects of a minimal configuration\<close>

text \<open>
  Claim C1 says that with certificate management disabled, no pull secrets and an identity
  provider whose \<^verbatim>\<open>RequiredSecrets\<close> are empty, \<^verbatim>\<open>Objects\<close> returns exactly six objects.
  The source appends the result of \<^verbatim>\<open>CreateCertSecret()\<close> unconditionally, so the list
  has seven entries. At the minimal example the kinds of the created objects are the six
  of the claim followed by a secret, and their number is not six.
\<close>

theorem Objects_minimal_not_six:
  "map_option (map kindOf) (created (Objects okExternals [exampleCertSecret] minimalComponent))
   = Some [''ServiceAccount'', ''Deployment'', ''Service'', ''ClusterRole'',
           ''ClusterRoleBinding'', ''ConfigMap'', ''Secret'']
   \<and> map_option length (created (Objects okExternals [exampleCertSecret] minimalComponent))
       \<noteq> Some 6"
  by (simp add: example_defs render_defs)

text \<open>
  Claim C1, amended: under the conditions of the claim, and when \<^verbatim>\<open>yaml.Marshal\<close>
  accepts the configuration document, \<^verbatim>\<open>Objects\<close> returns exactly seven objects to
  create: service account, deployment, service, cluster role, cluster role binding and
  config map, in this order, followed by the certificate secret of the identity provider.
  Nothing is deleted and the heap is unchanged.
\<close>

theorem Objects_minimal_seven:
  assumes inst: "installation c = Some inst"
    and off: "CertificateManagement inst = None"
    and nopull: "pullSecrets c = []"
    and noreq: "RequiredSecrets (dexConfig c) (OperatorNamespace ext) = []"
               "RequiredSecrets (dexConfig c) DexNamespace = []"
    and yaml: "yaml_Marshal ext (configData ext c) = Inr bytes"
  shows "\<exists>dep cmap.
           deployment ext h c = Inr dep \<and> configMap ext c = Inr cmap \<and>
           Objects ext h c =
             Inr ([ServiceAccountObj (serviceAccount c), DeploymentObj dep, ServiceObj (service c),
                   ClusterRoleObj (clusterRole c), ClusterRoleBindingObj (clusterRoleBinding c),
                   ConfigMapObj cmap, SecretObj (CreateCertSecret (dexConfig c))],
                  [], h)"
proof -
  have ss: "derefAll h (pullSecrets c) = Some []"
    using nopull by simp
  from inst ss obtain dep where dep: "deployment ext h c = Inr dep"
    using deployment_Inr_iff [of ext h c] by blast
  from yaml obtain cmap where cmap: "configMap ext c = Inr cmap"
    using configMap_Inr_iff [of ext c] by blast
  show ?thesis
    using Objects_result [OF inst ss dep cmap] dep cmap off nopull noreq by simp
qed

text \<open>The amended claim C1 at the minimal example: its conditions hold there, and the
  seventh object is the pointer to cell 0, the certificate secret.\<close>

theorem Objects_minimal_seven_witness:
  "installation minimalComponent = Some (exampleInstallation None)
   \<and> CertificateManagement (exampleInstallation None) = None
   \<and> pullSecrets minimalComponent = []
   \<and> RequiredSecrets (dexConfig minimalComponent) (OperatorNamespace okExternals) = []
   \<and> RequiredSecrets (dexConfig minimalComponent) DexNamespace = []
   \<and> yaml_Marshal okExternals (configData okExternals minimalComponent) = Inr ''issuer: /dex''
   \<and> (\<exists>dep cmap.
         deployment okExternals [exampleCertSecret] minimalComponent = Inr dep
         \<and> configMap okExternals minimalComponent = Inr cmap
         \<and> Objects okExternals [exampleCertSecret] minimalComponent =
             Inr ([ServiceAccountObj (serviceAccount minimalComponent), DeploymentObj dep,
                   ServiceObj (service minimalComponent),
                   ClusterRoleObj (clusterRole minimalComponent),
                   ClusterRoleBindingObj (clusterRoleBinding minimalComponent),
                   ConfigMapObj cmap, SecretObj (Some 0)],
                  [], [exampleCertSecret]))"
proof -
  have 1: "installation minimalComponent = Some (exampleInstallation None)"
    by (simp add: minimalComponent_def Dex_def)
  have 2: "CertificateManagement (exampleInstallation None) = None"
    by (simp add: exampleInstallation_def)
  have 3: "pullSecrets minimalComponent = []"
    by (simp add: minimalComponent_def Dex_def)
  have 4: "RequiredSecrets (dexConfig minimalComponent) (OperatorNamespace okExternals) = []"
    by (simp add: minimalComponent_def Dex_def stubDexConfig_def)
  have 5: "RequiredSecrets (dexConfig minimalComponent) DexNamespace = []"
    by (simp add: minimalComponent_def Dex_def stubDexConfig_def)
  have 6: "yaml_Marshal okExternals (configData okExternals minimalComponent) = Inr ''issuer: /dex''"
    by (simp add: okExternals_def exampleExternals_def)
  have 7: "CreateCertSecret (dexConfig minimalComponent) = Some 0"
    by (simp add: minimalComponent_def Dex_def stubDexConfig_def)
  show ?thesis
    using 1 2 3 4 5 6 Objects_minimal_seven [OF 1 2 3 4 5 6, of "[exampleCertSecret]"]
    unfolding 7 by blast
qed

subsection \<open>C2: the redirect URIs of the static client\<close>

text \<open>
  Claim C2: in the configuration document, the entry \<^verbatim>\<open>redirectURIs\<close> of the one static
  client is the list of the four fixed loopback callbacks when \<^verbatim>\<open>ManagerURI()\<close> is empty
  or contains \<^verbatim>\<open>localhost\<close> or \<^verbatim>\<open>127.0.0.1\<close>; otherwise it is those four followed by the
  two callbacks built from \<^verbatim>\<open>ManagerURI()\<close>. This document is the one that the result
  carries: a config map that \<^verbatim>\<open>configMap\<close> returns holds under \<^verbatim>\<open>config.yaml\<close> exactly
  what \<^verbatim>\<open>yaml.Marshal\<close> made of it, and whenever \<^verbatim>\<open>Objects\<close> returns, that config map is
  the sixth object to create.
\<close>

theorem configMap_redirectURIs:
  "\<exists>doc client.
     configData ext c = GoMap doc
     \<and> doc ''staticClients'' = Some (GoSlice [GoMap client])
     \<and> client ''redirectURIs'' = Some (GoStrings (redirectURIs c))
     \<and> redirectURIs c =
        (if ManagerURI (dexConfig c) = []
            \<or> Contains (ManagerURI (dexConfig c)) ''localhost''
            \<or> Contains (ManagerURI (dexConfig c)) ''127.0.0.1''
         then [''https://localhost:9443/login/oidc/callback'',
               ''https://127.0.0.1:9443/login/oidc/callback'',
               ''https://localhost:9443/tigera-kibana/api/security/oidc/callback'',
               ''https://127.0.0.1:9443/tigera-kibana/api/security/oidc/callback'']
         else [''https://localhost:9443/login/oidc/callback'',
               ''https://127.0.0.1:9443/login/oidc/callback'',
               ''https://localhost:9443/tigera-kibana/api/security/oidc/callback'',
               ''https://127.0.0.1:9443/tigera-kibana/api/security/oidc/callback'',
               ManagerURI (dexConfig c) @ ''/login/oidc/callback'',
               ManagerURI (dexConfig c) @ ''/tigera-kibana/api/security/oidc/callback''])
     \<and> (\<forall>cmap. configMap ext c = Inr cmap \<longrightarrow>
            (\<exists>bytes. yaml_Marshal ext (GoMap doc) = Inr bytes
                     \<and> cm_Data cmap = [''config.yaml'' \<mapsto> bytes]))
     \<and> (\<forall>objs dels h'. Objects ext h c = Inr (objs, dels, h') \<longrightarrow>
            (\<exists>cmap. configMap ext c = Inr cmap \<and> 5 < length objs
                    \<and> objs ! 5 = ConfigMapObj cmap))"
proof -
  have link: "\<forall>cmap. configMap ext c = Inr cmap \<longrightarrow>
            (\<exists>bytes. yaml_Marshal ext (configData ext c) = Inr bytes
                     \<and> cm_Data cmap = [''config.yaml'' \<mapsto> bytes])"
    by (auto simp: configMap_def split: sum.splits)
  have out: "\<forall>objs dels h'. Objects ext h c = Inr (objs, dels, h') \<longrightarrow>
            (\<exists>cmap. configMap ext c = Inr cmap \<and> 5 < length objs
                    \<and> objs ! 5 = ConfigMapObj cmap)"
  proof (intro allI impI)
    fix objs dels h'
    assume ret: "Objects ext h c = Inr (objs, dels, h')"
    from Objects_Inr_D [OF ret] obtain inst ss dep cmap where
      f: "installation c = Some inst" "derefAll h (pullSecrets c) = Some ss"
         "deployment ext h c = Inr dep" "configMap ext c = Inr cmap"
      by blast
    from Objects_result [OF f] ret have "5 < length objs \<and> objs ! 5 = ConfigMapObj cmap"
      by auto
    with f(4) show "\<exists>cmap. configMap ext c = Inr cmap \<and> 5 < length objs
                    \<and> objs ! 5 = ConfigMapObj cmap"
      by blast
  qed
  obtain doc where doc: "configData ext c = GoMap doc"
    by (simp add: configData_def)
  have rest: "\<exists>client. doc ''staticClients'' = Some (GoSlice [GoMap client])
     \<and> client ''redirectURIs'' = Some (GoStrings (redirectURIs c))"
    using doc by (auto simp: configData_def)
  have uris: "redirectURIs c =
        (if ManagerURI (dexConfig c) = []
            \<or> Contains (ManagerURI (dexConfig c)) ''localhost''
            \<or> Contains (ManagerURI (dexConfig c)) ''127.0.0.1''
         then [''https://localhost:9443/login/oidc/callback'',
               ''https://127.0.0.1:9443/login/oidc/callback'',
               ''https://localhost:9443/tigera-kibana/api/security/oidc/callback'',
               ''https://127.0.0.1:9443/tigera-kibana/api/security/oidc/callback'']
         else [''https://localhost:9443/login/oidc/callback'',
               ''https://127.0.0.1:9443/login/oidc/callback'',
               ''https://localhost:9443/tigera-kibana/api/security/oidc/callback'',
               ''https://127.0.0.1:9443/tigera-kibana/api/security/oidc/callback'',
               ManagerURI (dexConfig c) @ ''/login/oidc/callback'',
               ManagerURI (dexConfig c) @ ''/tigera-kibana/api/security/oidc/callback''])"
    by (simp add: redirectURIs_def Sprintf_s_def Let_def)
  from rest obtain client where
    cl: "doc ''staticClients'' = Some (GoSlice [GoMap client])"
        "client ''redirectURIs'' = Some (GoStrings (redirectURIs c))"
    by blast
  show ?thesis
    apply (rule exI [of _ doc], rule exI [of _ client])
    using doc cl uris link out
    apply (simp only: simp_thms)
    done
qed

text \<open>The three manager URIs of the claim, and a loopback address: an empty URI and the two
  loopback URIs give four entries, \<^verbatim>\<open>https://mgr.example.com\<close> gives six. With the encoder
  that prints the redirect URIs, the config map among the objects of \<^verbatim>\<open>Objects\<close> holds
  these six under \<^verbatim>\<open>config.yaml\<close>.\<close>

theorem configMap_redirectURIs_witness:
  "length (redirectURIs (managerComponent [])) = 4
   \<and> length (redirectURIs (managerComponent ''https://localhost:9443'')) = 4
   \<and> redirectURIs (managerComponent ''https://127.0.0.1:9443'')
       = redirectURIs (managerComponent [])
   \<and> redirectURIs (managerComponent ''https://mgr.example.com'')
       = redirectURIs (managerComponent [])
         @ [''https://mgr.example.com/login/oidc/callback'',
            ''https://mgr.example.com/tigera-kibana/api/security/oidc/callback'']
   \<and> (\<exists>objs dels h' cmap.
         Objects listingExternals [exampleCertSecret] (managerComponent ''https://mgr.example.com'')
           = Inr (objs, dels, h')
         \<and> objs ! 5 = ConfigMapObj cmap
         \<and> cm_Data cmap ''config.yaml'' =
             Some (Join [''https://localhost:9443/login/oidc/callback'',
                         ''https://127.0.0.1:9443/login/oidc/callback'',
                         ''https://localhost:9443/tigera-kibana/api/security/oidc/callback'',
                         ''https://127.0.0.1:9443/tigera-kibana/api/security/oidc/callback'',
                         ''https://mgr.example.com/login/oidc/callback'',
                         ''https://mgr.example.com/tigera-kibana/api/security/oidc/callback'']
                        '' ''))"
proof -
  let ?four = "[''https://localhost:9443/login/oidc/callback'',
               ''https://127.0.0.1:9443/login/oidc/callback'',
               ''https://localhost:9443/tigera-kibana/api/security/oidc/callback'',
               ''https://127.0.0.1:9443/tigera-kibana/api/security/oidc/callback'']"
  have uri: "\<And>u. ManagerURI (dexConfig (managerComponent u)) = u"
    by (simp add: managerComponent_def Dex_def stubDexConfig_def)
  have r: "redirectURIs (managerComponent u) =
        (if u = [] \<or> Contains u ''localhost'' \<or> Contains u ''127.0.0.1''
         then ?four
         else ?four @ [u @ ''/login/oidc/callback'',
                       u @ ''/tigera-kibana/api/security/oidc/callback''])" for u
  proof -
    from configMap_redirectURIs [of okExternals "managerComponent u" "[]"] have
      "redirectURIs (managerComponent u) =
        (if ManagerURI (dexConfig (managerComponent u)) = []
            \<or> Contains (ManagerURI (dexConfig (managerComponent u))) ''localhost''
            \<or> Contains (ManagerURI (dexConfig (managerComponent u))) ''127.0.0.1''
         then ?four
         else [''https://localhost:9443/login/oidc/callback'',
               ''https://127.0.0.1:9443/login/oidc/callback'',
               ''https://localhost:9443/tigera-kibana/api/security/oidc/callback'',
               ''https://127.0.0.1:9443/tigera-kibana/api/security/oidc/callback'',
               ManagerURI (dexConfig (managerComponent u)) @ ''/login/oidc/callback'',
               ManagerURI (dexConfig (managerComponent u))
                 @ ''/tigera-kibana/api/security/oidc/callback''])"
      by (elim exE conjE)
    then show ?thesis
      unfolding uri by simp
  qed
  let ?c = "managerComponent ''https://mgr.example.com''"
  let ?h = "[exampleCertSecret]"
  have "\<exists>x. Objects listingExternals ?h ?c = Inr x"
    by (simp add: example_defs render_defs Marshal_def)
  then obtain objs dels h' where ret: "Objects listingExternals ?h ?c = Inr (objs, dels, h')"
    by auto
  from configMap_redirectURIs [of listingExternals ?c ?h] obtain doc client where
    cl: "doc ''staticClients'' = Some (GoSlice [GoMap client])"
        "client ''redirectURIs'' = Some (GoStrings (redirectURIs ?c))"
    and link: "\<forall>cmap. configMap listingExternals ?c = Inr cmap \<longrightarrow>
            (\<exists>bytes. yaml_Marshal listingExternals (GoMap doc) = Inr bytes
                     \<and> cm_Data cmap = [''config.yaml'' \<mapsto> bytes])"
    and out: "\<forall>objs dels h'. Objects listingExternals ?h ?c = Inr (objs, dels, h') \<longrightarrow>
            (\<exists>cmap. configMap listingExternals ?c = Inr cmap \<and> 5 < length objs
                    \<and> objs ! 5 = ConfigMapObj cmap)"
    by (elim exE conjE) (rule that)
  from out ret obtain cmap where
    cm: "configMap listingExternals ?c = Inr cmap" "objs ! 5 = ConfigMapObj cmap"
    by blast
  from link cm(1) obtain bytes where
    b: "yaml_Marshal listingExternals (GoMap doc) = Inr bytes"
       "cm_Data cmap = [''config.yaml'' \<mapsto> bytes]"
    by blast
  have "yaml_Marshal listingExternals (GoMap doc) = Inr (Join (redirectURIs ?c) '' '')"
    using cl by (simp add: listingExternals_def Marshal_def uriLine_def GoStrings_def textOf_GoString)
  with b have "cm_Data cmap ''config.yaml'' = Some (Join (redirectURIs ?c) '' '')"
    by simp
  then have d: "cm_Data cmap ''config.yaml'' =
             Some (Join [''https://localhost:9443/login/oidc/callback'',
                         ''https://127.0.0.1:9443/login/oidc/callback'',
                         ''https://localhost:9443/tigera-kibana/api/security/oidc/callback'',
                         ''https://127.0.0.1:9443/tigera-kibana/api/security/oidc/callback'',
                         ''https://mgr.example.com/login/oidc/callback'',
                         ''https://mgr.example.com/tigera-kibana/api/security/oidc/callback'']
                        '' '')"
    by (simp only: r) simp
  have last: "\<exists>objs dels h' cmap.
         Objects listingExternals ?h ?c = Inr (objs, dels, h')
         \<and> objs ! 5 = ConfigMapObj cmap
         \<and> cm_Data cmap ''config.yaml'' =
             Some (Join [''https://localhost:9443/login/oidc/callback'',
                         ''https://127.0.0.1:9443/login/oidc/callback'',
                         ''https://localhost:9443/tigera-kibana/api/security/oidc/callback'',
                         ''https://127.0.0.1:9443/tigera-kibana/api/security/oidc/callback'',
                         ''https://mgr.example.com/login/oidc/callback'',
                         ''https://mgr.example.com/tigera-kibana/api/security/oidc/callback'']
                        '' '')"
    by (intro exI conjI) (rule ret, rule cm(2), rule d)
  have first: "length (redirectURIs (managerComponent [])) = 4
   \<and> length (redirectURIs (managerComponent ''https://localhost:9443'')) = 4
   \<and> redirectURIs (managerComponent ''https://127.0.0.1:9443'')
       = redirectURIs (managerComponent [])
   \<and> redirectURIs (managerComponent ''https://mgr.example.com'')
       = redirectURIs (managerComponent [])
         @ [''https://mgr.example.com/login/oidc/callback'',
            ''https://mgr.example.com/tigera-kibana/api/security/oidc/callback'']"
    by (simp add: r)
  from first last show ?thesis
    by (simp only: simp_thms)
qed

subsection \<open>C3: the error of ResolveImages\<close>

text \<open>
  Claim C3: with an installation, \<^verbatim>\<open>ResolveImages\<close> returns; the image is assigned from
  the main lookup, and with certificate management enabled the bootstrap image is assigned
  from the bootstrap lookup, whatever the main lookup answered. The error returned is
  non-nil exactly when the main lookup failed or, with certificate management enabled,
  the bootstrap lookup failed. When both fail, the error is the two messages joined by a
  comma and contains both; this is stated for messages without \<^verbatim>\<open>%\<close>, which
  \<^verbatim>\<open>fmt.Errorf\<close> returns unchanged: a lookup that misses an image reports a plain text
  naming the image.
\<close>

theorem ResolveImages_aggregates_errors:
  assumes inst: "installation c = Some inst"
  shows "\<exists>c' err.
           ResolveImages ext c iset = Inr (c', err)
           \<and> dex_image c' =
               fst (GetReference ext (ComponentDex ext) (Registry inst) (ImagePath inst) iset)
           \<and> (CertificateManagement inst \<noteq> None \<longrightarrow>
                 csrInitImage c' = fst (ResolveCSRInitImage ext inst iset))
           \<and> (err \<noteq> None \<longleftrightarrow>
                 snd (GetReference ext (ComponentDex ext) (Registry inst) (ImagePath inst) iset)
                   \<noteq> None
                 \<or> (CertificateManagement inst \<noteq> None
                     \<and> snd (ResolveCSRInitImage ext inst iset) \<noteq> None))
           \<and> (\<forall>e1 e2.
                 CertificateManagement inst \<noteq> None
                 \<and> snd (GetReference ext (ComponentDex ext) (Registry inst) (ImagePath inst) iset)
                     = Some e1
                 \<and> snd (ResolveCSRInitImage ext inst iset) = Some e2
                 \<and> CHR ''%'' \<notin> set e1 \<and> CHR ''%'' \<notin> set e2
                 \<longrightarrow> err = Some (e1 @ '','' @ e2)
                     \<and> Contains (e1 @ '','' @ e2) e1 \<and> Contains (e1 @ '','' @ e2) e2)"
proof -
  from ResolveImages_returns [OF inst] obtain c' err where
    ret: "ResolveImages ext c iset = Inr (c', err)"
    by blast
  have img: "dex_image c' =
               fst (GetReference ext (ComponentDex ext) (Registry inst) (ImagePath inst) iset)"
    using inst ret
    by (auto simp: ResolveImages_def Let_def split: option.splits if_splits)
  have csr: "CertificateManagement inst \<noteq> None \<longrightarrow>
                 csrInitImage c' = fst (ResolveCSRInitImage ext inst iset)"
    using ResolveImages_no_short_circuit [OF inst _ ret] by auto
  note iff = ResolveImages_error_iff [OF inst ret]
  have both: "\<forall>e1 e2.
                 CertificateManagement inst \<noteq> None
                 \<and> snd (GetReference ext (ComponentDex ext) (Registry inst) (ImagePath inst) iset)
                     = Some e1
                 \<and> snd (ResolveCSRInitImage ext inst iset) = Some e2
                 \<and> CHR ''%'' \<notin> set e1 \<and> CHR ''%'' \<notin> set e2
                 \<longrightarrow> err = Some (e1 @ '','' @ e2)
                     \<and> Contains (e1 @ '','' @ e2) e1 \<and> Contains (e1 @ '','' @ e2) e2"
  proof (intro allI impI, elim conjE)
    fix e1 e2
    assume cm: "CertificateManagement inst \<noteq> None"
      and e1: "snd (GetReference ext (ComponentDex ext) (Registry inst) (ImagePath inst) iset)
                 = Some e1"
      and e2: "snd (ResolveCSRInitImage ext inst iset) = Some e2"
      and p: "CHR ''%'' \<notin> set e1" "CHR ''%'' \<notin> set e2"
    from cm obtain cm' where cm': "CertificateManagement inst = Some cm'" by auto
    from ResolveImages_both_fail_plain [OF inst cm' e1 e2 p] ret
    have "err = Some (e1 @ '','' @ e2)" by auto
    with Contains_joined [of e1 "'',''" e2]
    show "err = Some (e1 @ '','' @ e2)
            \<and> Contains (e1 @ '','' @ e2) e1 \<and> Contains (e1 @ '','' @ e2) e2"
      by simp
  qed
  show ?thesis
    by (intro exI [of _ c'] exI [of _ err] conjI) (rule ret, rule img, rule csr, rule iff, rule both)
qed

text \<open>Claim C3 where both lookups fail, each with the message that its component is not in
  the image set.\<close>

theorem ResolveImages_aggregates_errors_witness:
  "installation (pullComponent (Some exampleCertificateManagement))
     = Some (exampleInstallation (Some exampleCertificateManagement))
   \<and> returnedError (ResolveImages failingExternals
                      (pullComponent (Some exampleCertificateManagement)) None)
     = Some (''ImageSet did not contain image tigera/dex''
             @ '','' @ ''ImageSet did not contain image tigera/key-cert-provisioner'')
   \<and> Contains (''ImageSet did not contain image tigera/dex''
               @ '','' @ ''ImageSet did not contain image tigera/key-cert-provisioner'')
        ''ImageSet did not contain image tigera/dex''
   \<and> Contains (''ImageSet did not contain image tigera/dex''
               @ '','' @ ''ImageSet did not contain image tigera/key-cert-provisioner'')
        ''ImageSet did not contain image tigera/key-cert-provisioner''"
proof -
  let ?c = "pullComponent (Some exampleCertificateManagement)"
  let ?inst = "exampleInstallation (Some exampleCertificateManagement)"
  let ?e1 = "''ImageSet did not contain image tigera/dex''"
  let ?e2 = "''ImageSet did not contain image tigera/key-cert-provisioner''"
  have 1: "installation ?c = Some ?inst"
    by (simp add: pullComponent_def Dex_def)
  have cm: "CertificateManagement ?inst \<noteq> None"
    by (simp add: exampleInstallation_def)
  have e1: "snd (GetReference failingExternals (ComponentDex failingExternals)
                   (Registry ?inst) (ImagePath ?inst) None) = Some ?e1"
    by (simp add: failingExternals_def exampleExternals_def)
  have e2: "snd (ResolveCSRInitImage failingExternals ?inst None) = Some ?e2"
    by (simp add: failingExternals_def exampleExternals_def)
  have p: "CHR ''%'' \<notin> set ?e1" "CHR ''%'' \<notin> set ?e2"
    by simp_all
  from ResolveImages_aggregates_errors [OF 1, of failingExternals None] obtain c' err where
    ret: "ResolveImages failingExternals ?c None = Inr (c', err)"
    and both: "\<forall>e1 e2.
                 CertificateManagement ?inst \<noteq> None
                 \<and> snd (GetReference failingExternals (ComponentDex failingExternals)
                          (Registry ?inst) (ImagePath ?inst) None) = Some e1
                 \<and> snd (ResolveCSRInitImage failingExternals ?inst None) = Some e2
                 \<and> CHR ''%'' \<notin> set e1 \<and> CHR ''%'' \<notin> set e2
                 \<longrightarrow> err = Some (e1 @ '','' @ e2)
                     \<and> Contains (e1 @ '','' @ e2) e1 \<and> Contains (e1 @ '','' @ e2) e2"
    by (elim exE conjE) (rule that)
  from both cm e1 e2 p have
    r: "err = Some (?e1 @ '','' @ ?e2)
        \<and> Contains (?e1 @ '','' @ ?e2) ?e1 \<and> Contains (?e1 @ '','' @ ?e2) ?e2"
    by blast
  have "returnedError (ResolveImages failingExternals ?c None) = Some (?e1 @ '','' @ ?e2)"
    using ret r by simp
  with 1 r show ?thesis
    by (intro conjI) (simp_all only:)
qed

subsection \<open>C4: when Objects returns\<close>




subsection \<open>C5: certificate management on and off\<close>

text \<open>
  Claim C5: switching certificate management from disabled to enabled, with everything else
  fixed, changes the result of \<^verbatim>\<open>Objects\<close> in two places and nowhere else: the init
  containers of the deployment go from none to the one CSR init container, and one cluster
  role binding for certificate signing requests is appended. The objects to delete and the
  heap after the call are the same.
\<close>

theorem Objects_toggle_certificate_management:
  assumes off: "Objects ext h (c\<lparr>installation := Some (inst\<lparr>CertificateManagement := None\<rparr>)\<rparr>)
                  = Inr (objs, dels, h')"
  shows "\<exists>sa dep rest.
           objs = sa # DeploymentObj dep # rest
           \<and> InitContainers (pts_Spec (ds_Template (dep_Spec dep))) = []
           \<and> Objects ext h (c\<lparr>installation := Some (inst\<lparr>CertificateManagement := Some cm\<rparr>)\<rparr>)
               = Inr (sa
                      # DeploymentObj
                          (withInitContainers
                             [CreateCSRInitContainer ext cm (csrInitImage c) ''tls'' DexObjectName
                                TLSPrivateKeyKey TLSCertKey
                                (GetServiceDNSNames ext DexObjectName DexNamespace (clusterDomain c))
                                DexNamespace] dep)
                      # rest
                      @ [ClusterRoleBindingObj (csrClusterRoleBinding ext DexObjectName DexNamespace)],
                      dels, h')"
proof -
  let ?off = "c\<lparr>installation := Some (inst\<lparr>CertificateManagement := None\<rparr>)\<rparr>"
  let ?on = "c\<lparr>installation := Some (inst\<lparr>CertificateManagement := Some cm\<rparr>)\<rparr>"
  let ?ic = "[CreateCSRInitContainer ext cm (csrInitImage c) ''tls'' DexObjectName
                TLSPrivateKeyKey TLSCertKey
                (GetServiceDNSNames ext DexObjectName DexNamespace (clusterDomain c))
                DexNamespace]"
  from Objects_Inr_D [OF off] obtain inst0 ss dep cmap where
    ss: "derefAll h (pullSecrets ?off) = Some ss"
    and dep: "deployment ext h ?off = Inr dep" and cmap: "configMap ext ?off = Inr cmap"
    by blast
  have i_off: "installation ?off = Some (inst\<lparr>CertificateManagement := None\<rparr>)"
    and i_on: "installation ?on = Some (inst\<lparr>CertificateManagement := Some cm\<rparr>)"
    by simp_all
  have ss_on: "derefAll h (pullSecrets ?on) = Some ss"
    using ss by simp
  have cmap_on: "configMap ext ?on = Inr cmap"
    using cmap by (simp add: configMap_installation)
  note dep_on = deployment_toggle(2) [OF dep, of cm]
  have same: "serviceAccount ?on = serviceAccount ?off" "service ?on = service ?off"
    "clusterRole ?on = clusterRole ?off" "clusterRoleBinding ?on = clusterRoleBinding ?off"
    by (simp_all add: serviceAccount_def service_def clusterRole_def clusterRoleBinding_def)
  show ?thesis
    using Objects_result [OF i_off ss dep cmap] Objects_result [OF i_on ss_on dep_on cmap_on]
      off deployment_toggle(1) [OF dep] same
    by simp
qed

text \<open>Claim C5 at the example with one pull secret.\<close>

theorem Objects_toggle_certificate_management_witness:
  "\<exists>objs dels h'.
     Objects okExternals (pullHeap ''tigera-operator'')
       (pullComponent None\<lparr>installation :=
          Some (exampleInstallation None\<lparr>CertificateManagement := None\<rparr>)\<rparr>)
       = Inr (objs, dels, h')
     \<and> (\<exists>sa dep rest.
           objs = sa # DeploymentObj dep # rest
           \<and> InitContainers (pts_Spec (ds_Template (dep_Spec dep))) = []
           \<and> Objects okExternals (pullHeap ''tigera-operator'')
               (pullComponent None\<lparr>installation :=
                  Some (exampleInstallation None
                         \<lparr>CertificateManagement := Some exampleCertificateManagement\<rparr>)\<rparr>)
               = Inr (sa
                      # DeploymentObj
                          (withInitContainers
                             [CreateCSRInitContainer okExternals exampleCertificateManagement
                                (csrInitImage (pullComponent None)) ''tls'' DexObjectName
                                TLSPrivateKeyKey TLSCertKey
                                (GetServiceDNSNames okExternals DexObjectName DexNamespace
                                   (clusterDomain (pullComponent None)))
                                DexNamespace] dep)
                      # rest
                      @ [ClusterRoleBindingObj
                           (csrClusterRoleBinding okExternals DexObjectName DexNamespace)],
                      dels, h'))"
proof -
  let ?off = "pullComponent None\<lparr>installation :=
          Some (exampleInstallation None\<lparr>CertificateManagement := None\<rparr>)\<rparr>"
  have "\<exists>r. Objects okExternals (pullHeap ''tigera-operator'') ?off = Inr r"
    by (simp add: example_defs render_defs)
  then obtain objs dels h' where
    ret: "Objects okExternals (pullHeap ''tigera-operator'') ?off = Inr (objs, dels, h')"
    by auto
  show ?thesis
    using ret Objects_toggle_certificate_management [OF ret, of exampleCertificateManagement]
    by (intro exI [of _ objs] exI [of _ dels] exI [of _ h']) (rule conjI)
qed

subsection \<open>C6: nothing is deleted\<close>

text \<open>
  Claim C6: whenever \<^verbatim>\<open>Objects\<close> returns, the slice of objects to delete is empty, so no
  object is both created and deleted.
\<close>

theorem Objects_deletes_nothing:
  assumes "Objects ext h c = Inr (objs, dels, h')"
  shows "dels = [] \<and> set objs \<inter> set dels = {}"
proof -
  from Objects_Inr_D [OF assms] obtain inst ss dep cmap where
    "installation c = Some inst" "derefAll h (pullSecrets c) = Some ss"
    "deployment ext h c = Inr dep" "configMap ext c = Inr cmap"
    by blast
  from Objects_result [OF this] assms show ?thesis by simp
qed

text \<open>Claim C6 at the example with certificate management and one pull secret, where
  \<^verbatim>\<open>Objects\<close> returns.\<close>

theorem Objects_deletes_nothing_witness:
  "\<exists>objs dels h'.
     Objects okExternals (pullHeap ''tigera-operator'')
       (pullComponent (Some exampleCertificateManagement)) = Inr (objs, dels, h')
     \<and> dels = [] \<and> set objs \<inter> set dels = {}"
proof -
  have "\<exists>r. Objects okExternals (pullHeap ''tigera-operator'')
              (pullComponent (Some exampleCertificateManagement)) = Inr r"
    by (simp add: example_defs render_defs)
  then obtain objs dels h' where
    ret: "Objects okExternals (pullHeap ''tigera-operator'')
            (pullComponent (Some exampleCertificateManagement)) = Inr (objs, dels, h')"
    by auto
  show ?thesis
    using ret Objects_deletes_nothing [OF ret]
    by (intro exI [of _ objs] exI [of _ dels] exI [of _ h']) (rule conjI)
qed

subsection \<open>C7: calling Objects twice\<close>

text \<open>
  Claim C7: for a fixed component and fixed answers of the collaborators, a second call of
  \<^verbatim>\<open>Objects\<close>, made in the heap that the first call left, returns objects with the same
  content as the first: the documents are equal and the secrets that the pointers name are
  equal. The pointers to the copied pull secrets differ, since each call allocates its
  copies. The second call does not change what the objects of the first call serialize
  to. The pointers that the identity provider returns are nil or allocated, as every Go
  pointer is.
\<close>

theorem Objects_deterministic:
  assumes ret: "Objects ext h c = Inr (objs, dels, h1)"
    and wf: "\<forall>p \<in> set (RequiredSecrets (dexConfig c) (OperatorNamespace ext))
                   \<union> {CreateCertSecret (dexConfig c)}
                   \<union> set (RequiredSecrets (dexConfig c) DexNamespace). allocated h p"
  shows "\<exists>objs2 h2.
           Objects ext h1 c = Inr (objs2, dels, h2)
           \<and> map (contentOf h2) objs2 = map (contentOf h1) objs
           \<and> map (contentOf h2) objs = map (contentOf h1) objs"
proof -
  from Objects_Inr_D [OF ret] obtain inst ss dep cmap where
    inst: "installation c = Some inst" and ss: "derefAll h (pullSecrets c) = Some ss"
    and dep: "deployment ext h c = Inr dep" and cmap: "configMap ext c = Inr cmap"
    by blast
  let ?cs = "map (\<lambda>s. s\<lparr>secret_Namespace := DexNamespace\<rparr>) ss"
  let ?A = "RequiredSecrets (dexConfig c) (OperatorNamespace ext)"
  let ?B = "CreateCertSecret (dexConfig c)"
  let ?C = "RequiredSecrets (dexConfig c) DexNamespace"
  let ?six = "[ServiceAccountObj (serviceAccount c), DeploymentObj dep, ServiceObj (service c),
           ClusterRoleObj (clusterRole c), ClusterRoleBindingObj (clusterRoleBinding c),
           ConfigMapObj cmap]"
  let ?tail = "(case CertificateManagement inst of
               None \<Rightarrow> []
             | Some cm \<Rightarrow>
                 [ClusterRoleBindingObj (csrClusterRoleBinding ext DexObjectName DexNamespace)])"
  have n: "length ?cs = length (pullSecrets c)"
    using derefAll_length [OF ss] by simp
  have first: "objs = ?six @ map SecretObj ?A @ [SecretObj ?B] @ map SecretObj ?C
                 @ map SecretObj (map Some [length h ..< length h + length ?cs]) @ ?tail"
    and dels: "dels = []" and h1: "h1 = h @ ?cs"
    using Objects_result [OF inst ss dep cmap] ret n by simp_all
  have ss1: "derefAll h1 (pullSecrets c) = Some ss"
    unfolding h1 using ss by (rule derefAll_append)
  have dep1: "deployment ext h1 c = Inr dep"
    using deployment_heap [of h1 c h ext] ss ss1 dep by simp
  let ?objs2 = "?six @ map SecretObj ?A @ [SecretObj ?B] @ map SecretObj ?C
                 @ map SecretObj (map Some [length h1 ..< length h1 + length ?cs]) @ ?tail"
  have second: "Objects ext h1 c = Inr (?objs2, dels, h1 @ ?cs)"
    using Objects_result [OF inst ss1 dep1 cmap] n dels by simp
  have wfA: "\<forall>p\<in>set ?A. allocated h p" and wfB: "allocated h ?B" and wfC: "\<forall>p\<in>set ?C. allocated h p"
    using wf by auto
  have tail: "map (contentOf g) ?tail = map (contentOf g') ?tail" for g g'
    by (simp split: option.splits)
  have A1: "map (contentOf h1) (map SecretObj ?A) = map (contentOf h) (map SecretObj ?A)"
    and C1: "map (contentOf h1) (map SecretObj ?C) = map (contentOf h) (map SecretObj ?C)"
    and B1: "contentOf h1 (SecretObj ?B) = contentOf h (SecretObj ?B)"
    unfolding h1 using wfA wfB wfC
    by (simp_all only: contentOf_secrets_append contentOf_append)
  have wfA1: "\<forall>p\<in>set ?A. allocated h1 p" and wfB1: "allocated h1 ?B"
    and wfC1: "\<forall>p\<in>set ?C. allocated h1 p"
    unfolding h1 using wfA wfB wfC by (auto intro: allocated_append)
  have A2: "map (contentOf (h1 @ ?cs)) (map SecretObj ?A) = map (contentOf h) (map SecretObj ?A)"
    and C2: "map (contentOf (h1 @ ?cs)) (map SecretObj ?C) = map (contentOf h) (map SecretObj ?C)"
    and B2: "contentOf (h1 @ ?cs) (SecretObj ?B) = contentOf h (SecretObj ?B)"
    using wfA1 wfB1 wfC1 A1 B1 C1
    by (simp_all only: contentOf_secrets_append contentOf_append)
  have F1: "map (contentOf h1) (map SecretObj (map Some [length h ..< length h + length ?cs]))
            = map (\<lambda>s. SecretContent (Some s)) ?cs"
    unfolding h1 by (rule contentOf_fresh)
  have F2: "map (contentOf (h1 @ ?cs)) (map SecretObj (map Some [length h1 ..< length h1 + length ?cs]))
            = map (\<lambda>s. SecretContent (Some s)) ?cs"
    by (rule contentOf_fresh)
  have F3: "map (contentOf (h1 @ ?cs)) (map SecretObj (map Some [length h ..< length h + length ?cs]))
            = map (\<lambda>s. SecretContent (Some s)) ?cs"
  proof -
    have "\<forall>p\<in>set (map Some [length h ..< length h + length ?cs]). allocated h1 p"
      unfolding h1 by (rule allocated_fresh)
    from contentOf_secrets_append [OF this] F1 show ?thesis
      by (rule trans)
  qed
  have six: "map (contentOf g) ?six = map Document ?six" for g
    by simp
  have c1: "map (contentOf h1) objs =
      map Document ?six @ map (contentOf h) (map SecretObj ?A) @ [contentOf h (SecretObj ?B)]
      @ map (contentOf h) (map SecretObj ?C) @ map (\<lambda>s. SecretContent (Some s)) ?cs
      @ map (contentOf h) ?tail"
    unfolding first map_append six A1 C1 F1 tail [of h1 h] using B1 by simp
  have c2: "map (contentOf (h1 @ ?cs)) ?objs2 =
      map Document ?six @ map (contentOf h) (map SecretObj ?A) @ [contentOf h (SecretObj ?B)]
      @ map (contentOf h) (map SecretObj ?C) @ map (\<lambda>s. SecretContent (Some s)) ?cs
      @ map (contentOf h) ?tail"
    unfolding map_append six A2 C2 F2 tail [of "h1 @ ?cs" h] using B2 by simp
  have c3: "map (contentOf (h1 @ ?cs)) objs =
      map Document ?six @ map (contentOf h) (map SecretObj ?A) @ [contentOf h (SecretObj ?B)]
      @ map (contentOf h) (map SecretObj ?C) @ map (\<lambda>s. SecretContent (Some s)) ?cs
      @ map (contentOf h) ?tail"
    unfolding first map_append six A2 C2 F3 tail [of "h1 @ ?cs" h] using B2 by simp
  show ?thesis
    using second c1 c2 c3 by (intro exI [of _ ?objs2] exI [of _ "h1 @ ?cs"]) simp
qed

text \<open>Claim C7 at the example with one pull secret: the first call puts the copy in cell 2
  and the second in cell 3, and the contents agree.\<close>

theorem Objects_deterministic_witness:
  "allocated (pullHeap ''tigera-operator'') (CreateCertSecret (dexConfig (pullComponent None)))
   \<and> RequiredSecrets (dexConfig (pullComponent None)) (OperatorNamespace okExternals) = []
   \<and> RequiredSecrets (dexConfig (pullComponent None)) DexNamespace = []
   \<and> (\<exists>objs dels h1 objs2 h2.
         Objects okExternals (pullHeap ''tigera-operator'') (pullComponent None)
           = Inr (objs, dels, h1)
         \<and> Objects okExternals h1 (pullComponent None) = Inr (objs2, dels, h2)
         \<and> map (contentOf h2) objs2 = map (contentOf h1) objs
         \<and> last objs = SecretObj (Some 2) \<and> last objs2 = SecretObj (Some 3))"
proof -
  let ?c = "pullComponent None"
  let ?h = "pullHeap ''tigera-operator''"
  have 1: "allocated ?h (CreateCertSecret (dexConfig ?c))"
    by (simp add: example_defs)
  have 2: "RequiredSecrets (dexConfig ?c) (OperatorNamespace okExternals) = []"
    by (simp add: example_defs)
  have 3: "RequiredSecrets (dexConfig ?c) DexNamespace = []"
    by (simp add: example_defs)
  have "\<exists>r. Objects okExternals ?h ?c = Inr r"
    by (simp add: example_defs render_defs)
  then obtain objs dels h1 where ret: "Objects okExternals ?h ?c = Inr (objs, dels, h1)"
    by auto
  have l1: "last objs = SecretObj (Some 2)" and h1: "length h1 = 3"
    using ret by (auto simp: example_defs render_defs)
  have wf: "\<forall>p \<in> set (RequiredSecrets (dexConfig ?c) (OperatorNamespace okExternals))
                   \<union> {CreateCertSecret (dexConfig ?c)}
                   \<union> set (RequiredSecrets (dexConfig ?c) DexNamespace). allocated ?h p"
    using 1 2 3 by simp
  from Objects_deterministic [OF ret wf] obtain objs2 h2 where
    ret2: "Objects okExternals h1 ?c = Inr (objs2, dels, h2)"
    and eq: "map (contentOf h2) objs2 = map (contentOf h1) objs"
    by blast
  from Objects_Inr_D [OF ret2] obtain inst ss dep cmap where
    f: "installation ?c = Some inst" "derefAll h1 (pullSecrets ?c) = Some ss"
    "deployment okExternals h1 ?c = Inr dep" "configMap okExternals ?c = Inr cmap"
    by blast
  have cm: "CertificateManagement inst = None"
    using f(1) by (auto simp: example_defs)
  have l2: "last objs2 = SecretObj (Some 3)"
    using Objects_result [OF f] ret2 h1 cm by (auto simp: example_defs)
  have "\<exists>objs dels h1 objs2 h2.
         Objects okExternals ?h ?c = Inr (objs, dels, h1)
         \<and> Objects okExternals h1 ?c = Inr (objs2, dels, h2)
         \<and> map (contentOf h2) objs2 = map (contentOf h1) objs
         \<and> last objs = SecretObj (Some 2) \<and> last objs2 = SecretObj (Some 3)"
    using ret ret2 eq l1 l2 by blast
  with 1 2 3 show ?thesis
    by (intro conjI)
qed

subsection \<open>C8: fixed identifiers\<close>

text \<open>
  Claim C8: whenever \<^verbatim>\<open>Objects\<close> returns, its first six objects are the service account,
  deployment, service, cluster role, cluster role binding and config map, all named
  \<^verbatim>\<open>tigera-dex\<close>; the namespaced ones (service account, deployment, service, config map)
  are in the namespace \<^verbatim>\<open>DexNamespace\<close>; the service has exactly one port, TCP 5556; the
  deployment has exactly one container, whose command is
  \<^verbatim>\<open>/usr/local/bin/dex serve /etc/dex/baseCfg/config.yaml\<close> and whose liveness probe gets
  \<^verbatim>\<open>/dex/.well-known/openid-configuration\<close>.
\<close>

theorem Objects_fixed_identifiers:
  assumes ret: "Objects ext h c = Inr (objs, dels, h')"
  shows "\<exists>sa dep svc cr crb cmap port ctr pr hg.
           take 6 objs = [ServiceAccountObj sa, DeploymentObj dep, ServiceObj svc,
                          ClusterRoleObj cr, ClusterRoleBindingObj crb, ConfigMapObj cmap]
           \<and> om_Name (sa_ObjectMeta sa) = ''tigera-dex''
           \<and> om_Name (cr_ObjectMeta cr) = ''tigera-dex''
           \<and> om_Name (crb_ObjectMeta crb) = ''tigera-dex''
           \<and> om_Name (dep_ObjectMeta dep) = ''tigera-dex''
           \<and> om_Name (svc_ObjectMeta svc) = ''tigera-dex''
           \<and> om_Name (cm_ObjectMeta cmap) = ''tigera-dex''
           \<and> om_Namespace (sa_ObjectMeta sa) = DexNamespace
           \<and> om_Namespace (dep_ObjectMeta dep) = DexNamespace
           \<and> om_Namespace (svc_ObjectMeta svc) = DexNamespace
           \<and> om_Namespace (cm_ObjectMeta cmap) = DexNamespace
           \<and> DexNamespace = ''tigera-dex''
           \<and> ss_Ports (svc_Spec svc) = [port]
           \<and> sp_Port port = 5556 \<and> sp_Protocol port = ''TCP''
           \<and> Containers (pts_Spec (ds_Template (dep_Spec dep))) = [ctr]
           \<and> ctr_Command ctr = [''/usr/local/bin/dex'', ''serve'', ''/etc/dex/baseCfg/config.yaml'']
           \<and> ctr_LivenessProbe ctr = Some pr
           \<and> probe_HTTPGet pr = Some hg
           \<and> http_Path hg = ''/dex/.well-known/openid-configuration''"
proof -
  from Objects_Inr_D [OF ret] obtain inst ss dep cmap where
    inst: "installation c = Some inst" and ss: "derefAll h (pullSecrets c) = Some ss"
    and dep: "deployment ext h c = Inr dep" and cmap: "configMap ext c = Inr cmap"
    by blast
  have objs: "take 6 objs = [ServiceAccountObj (serviceAccount c), DeploymentObj dep,
      ServiceObj (service c), ClusterRoleObj (clusterRole c),
      ClusterRoleBindingObj (clusterRoleBinding c), ConfigMapObj cmap]"
    using Objects_result [OF inst ss dep cmap] ret by simp
  have d: "om_Name (dep_ObjectMeta dep) = ''tigera-dex''"
      "om_Namespace (dep_ObjectMeta dep) = DexNamespace"
      "Containers (pts_Spec (ds_Template (dep_Spec dep))) =
         [\<lparr>ctr_Name = DexObjectName, ctr_Image = dex_image c,
           ctr_Env = RequiredEnv (dexConfig c) [],
           ctr_LivenessProbe = Some (probe c),
           ctr_SecurityContext = Some (NewBaseContext ext),
           ctr_Command = [''/usr/local/bin/dex'', ''serve'', ''/etc/dex/baseCfg/config.yaml''],
           ctr_Ports = [\<lparr>cp_Name = ''https'', cp_ContainerPort = word_of_int DexPort\<rparr>],
           ctr_VolumeMounts = RequiredVolumeMounts (dexConfig c)\<rparr>]"
    using dep inst
    by (auto simp: deployment_def Let_def DexObjectName_def split: option.splits sum.splits)
  have m: "om_Name (cm_ObjectMeta cmap) = ''tigera-dex''"
      "om_Namespace (cm_ObjectMeta cmap) = DexNamespace"
    using cmap by (auto simp: configMap_def DexObjectName_def split: sum.splits)
  show ?thesis
    apply (rule exI [of _ "serviceAccount c"], rule exI [of _ dep], rule exI [of _ "service c"])
    apply (rule exI [of _ "clusterRole c"], rule exI [of _ "clusterRoleBinding c"])
    apply (rule exI [of _ cmap])
    apply (rule exI [of _ "\<lparr>sp_Name = DexObjectName, sp_Port = word_of_int DexPort,
             sp_TargetPort = IntVal (word_of_int DexPort), sp_Protocol = ProtocolTCP\<rparr>"])
    apply (rule exI [of _ "\<lparr>ctr_Name = DexObjectName, ctr_Image = dex_image c,
           ctr_Env = RequiredEnv (dexConfig c) [],
           ctr_LivenessProbe = Some (probe c),
           ctr_SecurityContext = Some (NewBaseContext ext),
           ctr_Command = [''/usr/local/bin/dex'', ''serve'', ''/etc/dex/baseCfg/config.yaml''],
           ctr_Ports = [\<lparr>cp_Name = ''https'', cp_ContainerPort = word_of_int DexPort\<rparr>],
           ctr_VolumeMounts = RequiredVolumeMounts (dexConfig c)\<rparr>"])
    apply (rule exI [of _ "probe c"])
    apply (rule exI [of _ "\<lparr>http_Path = ''/dex/.well-known/openid-configuration'',
                             http_Port = FromInt DexPort, http_Scheme = URISchemeHTTPS\<rparr>"])
    using objs d m
    apply (simp add: serviceAccount_def service_def clusterRole_def clusterRoleBinding_def
        probe_def DexObjectName_def DexNamespace_def DexPort_def ProtocolTCP_def)
    done
qed

text \<open>Claim C8 at the example with one pull secret.\<close>

theorem Objects_fixed_identifiers_witness:
  "\<exists>objs dels h'.
     Objects okExternals (pullHeap ''tigera-operator'') (pullComponent None) = Inr (objs, dels, h')
     \<and> (\<exists>sa dep svc cr crb cmap port ctr pr hg.
           take 6 objs = [ServiceAccountObj sa, DeploymentObj dep, ServiceObj svc,
                          ClusterRoleObj cr, ClusterRoleBindingObj crb, ConfigMapObj cmap]
           \<and> om_Name (sa_ObjectMeta sa) = ''tigera-dex''
           \<and> om_Name (cr_ObjectMeta cr) = ''tigera-dex''
           \<and> om_Name (crb_ObjectMeta crb) = ''tigera-dex''
           \<and> om_Name (dep_ObjectMeta dep) = ''tigera-dex''
           \<and> om_Name (svc_ObjectMeta svc) = ''tigera-dex''
           \<and> om_Name (cm_ObjectMeta cmap) = ''tigera-dex''
           \<and> om_Namespace (sa_ObjectMeta sa) = DexNamespace
           \<and> om_Namespace (dep_ObjectMeta dep) = DexNamespace
           \<and> om_Namespace (svc_ObjectMeta svc) = DexNamespace
           \<and> om_Namespace (cm_ObjectMeta cmap) = DexNamespace
           \<and> DexNamespace = ''tigera-dex''
           \<and> ss_Ports (svc_Spec svc) = [port]
           \<and> sp_Port port = 5556 \<and> sp_Protocol port = ''TCP''
           \<and> Containers (pts_Spec (ds_Template (dep_Spec dep))) = [ctr]
           \<and> ctr_Command ctr = [''/usr/local/bin/dex'', ''serve'', ''/etc/dex/baseCfg/config.yaml'']
           \<and> ctr_LivenessProbe ctr = Some pr
           \<and> probe_HTTPGet pr = Some hg
           \<and> http_Path hg = ''/dex/.well-known/openid-configuration'')"
proof -
  have "\<exists>r. Objects okExternals (pullHeap ''tigera-operator'') (pullComponent None) = Inr r"
    by (simp add: example_defs render_defs)
  then obtain objs dels h' where
    ret: "Objects okExternals (pullHeap ''tigera-operator'') (pullComponent None)
            = Inr (objs, dels, h')"
    by auto
  show ?thesis
    using ret Objects_fixed_identifiers [OF ret]
    by (intro exI [of _ objs] exI [of _ dels] exI [of _ h']) (rule conjI)
qed

subsection \<open>C9: copies of the pull secrets\<close>

text \<open>
  Claim C9 says that the copy of every pull secret has a namespace distinct from the
  original's. A pull secret that already lives in the namespace \<^verbatim>\<open>tigera-dex\<close> is copied
  all the same: after the call the original (cell 1) and the copy (cell 2, the last object
  of the result) are equal, namespace included.
\<close>

theorem Objects_copy_same_namespace:
  "pullSecrets (pullComponent None) = [Some 1]
   \<and> heapAfter (Objects okExternals (pullHeap ''tigera-dex'') (pullComponent None))
       = Some [exampleCertSecret, examplePullSecret ''tigera-dex'', examplePullSecret ''tigera-dex'']
   \<and> map_option last (created (Objects okExternals (pullHeap ''tigera-dex'') (pullComponent None)))
       = Some (SecretObj (Some 2))
   \<and> secret_Namespace (examplePullSecret ''tigera-dex'') = DexNamespace"
  by (simp add: example_defs render_defs DexNamespace_def)

text \<open>
  Claim C9, amended: whenever \<^verbatim>\<open>Objects\<close> returns, every pull secret reads the same after
  the call as before, and no cell of the heap before the call has changed; there is one
  copy for each pull secret, in a new cell that no pull-secret pointer names, and each copy
  is among the objects to create. A copy has the data and the name of its original and
  the namespace \<^verbatim>\<open>DexNamespace\<close>, which differs from the original's namespace exactly
  when the original was not already in \<^verbatim>\<open>DexNamespace\<close>.
\<close>

theorem Objects_copies_pull_secrets:
  assumes ret: "Objects ext h c = Inr (objs, dels, h')"
  shows "\<exists>ss copies cs.
           derefAll h (pullSecrets c) = Some ss
           \<and> derefAll h' (pullSecrets c) = Some ss
           \<and> take (length h) h' = h
           \<and> length copies = length (pullSecrets c)
           \<and> set (map SecretObj copies) \<subseteq> set objs
           \<and> set copies \<inter> set (pullSecrets c) = {}
           \<and> derefAll h' copies = Some cs
           \<and> map secret_Data cs = map secret_Data ss
           \<and> map secret_Name cs = map secret_Name ss
           \<and> map secret_Namespace cs = replicate (length ss) DexNamespace
           \<and> (\<forall>i<length ss. secret_Namespace (cs ! i) \<noteq> secret_Namespace (ss ! i)
                                \<longleftrightarrow> secret_Namespace (ss ! i) \<noteq> DexNamespace)"
proof -
  from Objects_Inr_D [OF ret] obtain inst ss dep cmap where
    inst: "installation c = Some inst" and ss: "derefAll h (pullSecrets c) = Some ss"
    and dep: "deployment ext h c = Inr dep" and cmap: "configMap ext c = Inr cmap"
    by blast
  let ?cs = "map (\<lambda>s. s\<lparr>secret_Namespace := DexNamespace\<rparr>) ss"
  let ?copies = "map Some [length h ..< length h + length (pullSecrets c)]"
  have n: "length ss = length (pullSecrets c)"
    by (rule derefAll_length [OF ss])
  have h': "h' = h @ ?cs"
    and objs: "set (map SecretObj ?copies) \<subseteq> set objs"
    using Objects_result [OF inst ss dep cmap] ret by auto
  have 1: "derefAll h' (pullSecrets c) = Some ss"
    unfolding h' using ss by (rule derefAll_append)
  have 2: "take (length h) h' = h"
    unfolding h' by simp
  have 3: "derefAll h' ?copies = Some ?cs"
    unfolding h' using derefAll_fresh [of h ?cs] n by simp
  have 4: "set ?copies \<inter> set (pullSecrets c) = {}"
    using derefAll_allocated [OF ss] by auto
  have 5: "map secret_Data ?cs = map secret_Data ss" "map secret_Name ?cs = map secret_Name ss"
    "map secret_Namespace ?cs = replicate (length ss) DexNamespace"
    by (simp_all add: map_replicate_const comp_def)
  have 6: "\<forall>i<length ss. secret_Namespace (?cs ! i) \<noteq> secret_Namespace (ss ! i)
                                \<longleftrightarrow> secret_Namespace (ss ! i) \<noteq> DexNamespace"
    by auto
  show ?thesis
    using ss 1 2 3 4 5 6 objs
    by (intro exI [of _ ss] exI [of _ ?copies] exI [of _ ?cs]) simp
qed

text \<open>The amended claim C9 at a pull secret of the namespace \<^verbatim>\<open>tigera-operator\<close>: the heap
  after the call holds the original and its copy in \<^verbatim>\<open>tigera-dex\<close>.\<close>

theorem Objects_copies_pull_secrets_witness:
  "\<exists>objs dels.
     Objects okExternals (pullHeap ''tigera-operator'') (pullComponent None)
       = Inr (objs, dels,
              [exampleCertSecret, examplePullSecret ''tigera-operator'',
               examplePullSecret ''tigera-dex''])
     \<and> (\<exists>ss copies cs.
           derefAll (pullHeap ''tigera-operator'') (pullSecrets (pullComponent None)) = Some ss
           \<and> derefAll [exampleCertSecret, examplePullSecret ''tigera-operator'',
                        examplePullSecret ''tigera-dex''] (pullSecrets (pullComponent None))
               = Some ss
           \<and> take (length (pullHeap ''tigera-operator''))
                [exampleCertSecret, examplePullSecret ''tigera-operator'',
                 examplePullSecret ''tigera-dex'']
               = pullHeap ''tigera-operator''
           \<and> length copies = length (pullSecrets (pullComponent None))
           \<and> set (map SecretObj copies) \<subseteq> set objs
           \<and> set copies \<inter> set (pullSecrets (pullComponent None)) = {}
           \<and> derefAll [exampleCertSecret, examplePullSecret ''tigera-operator'',
                        examplePullSecret ''tigera-dex''] copies = Some cs
           \<and> map secret_Data cs = map secret_Data ss
           \<and> map secret_Name cs = map secret_Name ss
           \<and> map secret_Namespace cs = replicate (length ss) DexNamespace
           \<and> (\<forall>i<length ss. secret_Namespace (cs ! i) \<noteq> secret_Namespace (ss ! i)
                                \<longleftrightarrow> secret_Namespace (ss ! i) \<noteq> DexNamespace))"
proof -
  have "\<exists>objs dels. Objects okExternals (pullHeap ''tigera-operator'') (pullComponent None)
       = Inr (objs, dels,
              [exampleCertSecret, examplePullSecret ''tigera-operator'',
               examplePullSecret ''tigera-dex''])"
    by (simp add: example_defs render_defs DexNamespace_def)
  then obtain objs dels where
    ret: "Objects okExternals (pullHeap ''tigera-operator'') (pullComponent None)
       = Inr (objs, dels,
              [exampleCertSecret, examplePullSecret ''tigera-operator'',
               examplePullSecret ''tigera-dex''])"
    by auto
  show ?thesis
    using ret Objects_copies_pull_secrets [OF ret]
    by (intro exI [of _ objs] exI [of _ dels]) (rule conjI)
qed

subsection \<open>C10: tolerations\<close>

text \<open>
  Claim C10: the tolerations of the rendered deployment are the control-plane tolerations
  of the installation followed by \<^verbatim>\<open>rmeta.TolerateMaster\<close>, which is therefore the last
  toleration of every rendered deployment, and the only one when the installation gives none.
\<close>

theorem deployment_tolerations:
  assumes "deployment ext h c = Inr dep" and "installation c = Some inst"
  shows "Tolerations (pts_Spec (ds_Template (dep_Spec dep)))
           = ControlPlaneTolerations inst @ [TolerateMaster ext]
         \<and> last (Tolerations (pts_Spec (ds_Template (dep_Spec dep)))) = TolerateMaster ext
         \<and> (ControlPlaneTolerations inst = [] \<longrightarrow>
              Tolerations (pts_Spec (ds_Template (dep_Spec dep))) = [TolerateMaster ext])"
  using deployment_fields(3) [OF assms] by simp

text \<open>Claim C10 at the minimal example, whose installation has no tolerations.\<close>

theorem deployment_tolerations_witness:
  "installation minimalComponent = Some (exampleInstallation None)
   \<and> ControlPlaneTolerations (exampleInstallation None) = []
   \<and> (\<exists>dep. deployment okExternals [exampleCertSecret] minimalComponent = Inr dep
        \<and> Tolerations (pts_Spec (ds_Template (dep_Spec dep)))
            = [\<lparr>tol_Key = ''node-role.kubernetes.io/master'', tol_Operator = [],
                 tol_Value = [], tol_Effect = ''NoSchedule''\<rparr>])"
proof -
  have 1: "installation minimalComponent = Some (exampleInstallation None)"
    by (simp add: minimalComponent_def Dex_def)
  have 2: "ControlPlaneTolerations (exampleInstallation None) = []"
    by (simp add: exampleInstallation_def)
  obtain dep where dep: "deployment okExternals [exampleCertSecret] minimalComponent = Inr dep"
    by (simp add: deployment_def example_defs)
  have "Tolerations (pts_Spec (ds_Template (dep_Spec dep)))
            = [\<lparr>tol_Key = ''node-role.kubernetes.io/master'', tol_Operator = [],
                 tol_Value = [], tol_Effect = ''NoSchedule''\<rparr>]"
    using deployment_tolerations [OF dep 1] 2 by (simp add: example_defs)
  with 1 2 dep show ?thesis by blast
qed

end
